theory Spec2Isabelle
  imports Complex_Main
begin

section \<open>Python values and exceptions\<close>

text \<open>
  The program is a single Python module. Exceptions are values of \<open>py_error\<close>; a call that
  may raise returns \<open>py_error + 'a\<close> with \<open>Inl\<close> for the exception. Strings are lists of
  8-bit characters, read as code points 0 to 255.
\<close>

datatype py_error = ValueError | TypeError | OverflowError | OSError

datatype pyfloat = Finite real | PosInf | NegInf | NaN

datatype pyval = PNone | PBool bool | PInt int | PFloat pyfloat | PStr string

text \<open>Comparison of floats: every comparison with NaN is false.\<close>

fun float_lt :: "pyfloat \<Rightarrow> pyfloat \<Rightarrow> bool" where
  "float_lt NaN _ = False"
| "float_lt _ NaN = False"
| "float_lt (Finite a) (Finite b) = (a < b)"
| "float_lt (Finite a) PosInf = True"
| "float_lt (Finite a) NegInf = False"
| "float_lt PosInf _ = False"
| "float_lt NegInf NegInf = False"
| "float_lt NegInf _ = True"

subsection \<open>Characters\<close>

text \<open>
  \<open>str.isspace\<close>, \<open>str.strip\<close> and the regular expression class \<open>\s\<close> agree on the
  code points below 256: 9 to 13, 28 to 32, 133 and 160.
\<close>

definition is_space :: "char \<Rightarrow> bool" where
  "is_space c = (let n = of_char c :: nat in (9 \<le> n \<and> n \<le> 13) \<or> (28 \<le> n \<and> n \<le> 32) \<or> n = 133 \<or> n = 160)"

definition is_digit :: "char \<Rightarrow> bool" where
  "is_digit c = (let n = of_char c :: nat in 48 \<le> n \<and> n \<le> 57)"

definition digit_val :: "char \<Rightarrow> nat" where
  "digit_val c = of_char c - 48"

definition is_upper :: "char \<Rightarrow> bool" where
  "is_upper c = (let n = of_char c :: nat in 65 \<le> n \<and> n \<le> 90)"

definition is_lower :: "char \<Rightarrow> bool" where
  "is_lower c = (let n = of_char c :: nat in 97 \<le> n \<and> n \<le> 122)"

text \<open>\<open>str.lower\<close> on one character: A to Z, and the upper-case letters of Latin-1.\<close>

definition lower_char :: "char \<Rightarrow> char" where
  "lower_char c = (let n = of_char c :: nat in
     if (65 \<le> n \<and> n \<le> 90) \<or> (192 \<le> n \<and> n \<le> 222 \<and> n \<noteq> 215) then char_of (n + 32) else c)"

definition lower :: "string \<Rightarrow> string" where
  "lower s = map lower_char s"

definition lstrip :: "string \<Rightarrow> string" where
  "lstrip s = dropWhile is_space s"

definition rstrip :: "string \<Rightarrow> string" where
  "rstrip s = rev (dropWhile is_space (rev s))"

definition strip :: "string \<Rightarrow> string" where
  "strip s = rstrip (lstrip s)"

text \<open>The value of a string of decimal digits, most significant digit first.\<close>

definition digits_val :: "string \<Rightarrow> nat" where
  "digits_val s = foldl (\<lambda>acc c. 10 * acc + digit_val c) 0 s"

subsection \<open>The built-in conversions \<open>float\<close> and \<open>int\<close>\<close>

text \<open>
  A digit part of a numeric literal: decimal digits, with single underscores allowed
  between digits only.
\<close>

fun digitpart_from :: "bool \<Rightarrow> string \<Rightarrow> bool" where
  "digitpart_from prev_digit [] = prev_digit"
| "digitpart_from prev_digit (c # cs) =
     (if is_digit c then digitpart_from True cs
      else if c = CHR ''_'' \<and> prev_digit then digitpart_from False cs
      else False)"

definition digitpart :: "string \<Rightarrow> bool" where
  "digitpart s = digitpart_from False s"

definition digitpart_val :: "string \<Rightarrow> nat" where
  "digitpart_val s = digits_val (filter is_digit s)"

text \<open>
  The whitespace that \<open>int\<close> and \<open>float\<close> drop around a string is narrower than that of
  \<open>str.strip\<close>: the conversion keeps every code point below 127 as it is and skips the C
  whitespace 9 to 13 and 32, and it turns the Unicode spaces from 127 on (133 and 160 below
  256) into blanks first. The code points 28 to 31 are not dropped.
\<close>

definition is_numeric_space :: "char \<Rightarrow> bool" where
  "is_numeric_space c = (let n = of_char c :: nat in (9 \<le> n \<and> n \<le> 13) \<or> n = 32 \<or> n = 133 \<or> n = 160)"

definition numeric_strip :: "string \<Rightarrow> string" where
  "numeric_strip s = rev (dropWhile is_numeric_space (rev (dropWhile is_numeric_space s)))"

text \<open>An optional sign in front of a literal: the sign and the rest.\<close>

definition split_sign :: "string \<Rightarrow> bool \<times> string" where
  "split_sign s = (case s of
       c # r \<Rightarrow> (if c = CHR ''-'' then (True, r) else if c = CHR ''+'' then (False, r) else (False, s))
     | [] \<Rightarrow> (False, s))"

text \<open>
  \<open>int(s)\<close> for a string in base 10: the whitespace around it is dropped, then an
  optional sign and a digit part; anything else raises ValueError.
\<close>

definition py_int_str :: "string \<Rightarrow> py_error + int" where
  "py_int_str s = (let (neg, body) = split_sign (numeric_strip s) in
     if digitpart body
     then Inr (if neg then - int (digitpart_val body) else int (digitpart_val body))
     else Inl ValueError)"

text \<open>
  \<open>float(s)\<close> for a string: the whitespace around it is dropped; an optional sign; then
  \<open>inf\<close>, \<open>infinity\<close> or \<open>nan\<close> in any case, or a decimal number
  \<open>[digitpart] . digitpart | digitpart [.]\<close> with an optional exponent
  \<open>(e|E) [sign] digitpart\<close>. The value of a decimal number is taken exactly: the rounding
  to the nearest double, and the overflow of a huge literal to an infinity, are not
  modelled.
\<close>

definition mantissa_ok :: "string \<Rightarrow> bool" where
  "mantissa_ok m = (let ip = takeWhile (\<lambda>c. c \<noteq> CHR ''.'') m; r = dropWhile (\<lambda>c. c \<noteq> CHR ''.'') m in
     case r of
       [] \<Rightarrow> digitpart ip
     | _ # fp \<Rightarrow> (ip = [] \<or> digitpart ip) \<and> (fp = [] \<or> digitpart fp) \<and> \<not> (ip = [] \<and> fp = []))"

definition mantissa_val :: "string \<Rightarrow> real" where
  "mantissa_val m = (let ip = takeWhile (\<lambda>c. c \<noteq> CHR ''.'') m; fp = filter is_digit (dropWhile (\<lambda>c. c \<noteq> CHR ''.'') m) in
     real (digitpart_val ip) + real (digits_val fp) / 10 ^ length fp)"

definition is_exp_char :: "char \<Rightarrow> bool" where
  "is_exp_char c = (c = CHR ''e'' \<or> c = CHR ''E'')"

definition exponent_ok :: "string \<Rightarrow> bool" where
  "exponent_ok e = digitpart (snd (split_sign e))"

definition exponent_val :: "string \<Rightarrow> int" where
  "exponent_val e = (let (neg, body) = split_sign e in
     if neg then - int (digitpart_val body) else int (digitpart_val body))"

definition py_float_str :: "string \<Rightarrow> py_error + pyfloat" where
  "py_float_str s = (let (neg, body) = split_sign (numeric_strip s); lb = lower body in
     if lb = ''inf'' \<or> lb = ''infinity'' then Inr (if neg then NegInf else PosInf)
     else if lb = ''nan'' then Inr NaN
     else let m = takeWhile (\<lambda>c. \<not> is_exp_char c) body; r = dropWhile (\<lambda>c. \<not> is_exp_char c) body in
       if \<not> mantissa_ok m then Inl ValueError
       else (case r of
           [] \<Rightarrow> Inr (Finite ((if neg then -1 else 1) * mantissa_val m))
         | _ # e \<Rightarrow> if exponent_ok e
             then Inr (Finite ((if neg then -1 else 1) * mantissa_val m * 10 powr real_of_int (exponent_val e)))
             else Inl ValueError))"

text \<open>
  \<open>float(x)\<close> for any value: None raises TypeError, a bool or an int converts (an int
  that rounds to \<open>2^1024\<close> or beyond raises OverflowError), a float is returned as it is.
\<close>

fun py_float :: "pyval \<Rightarrow> py_error + pyfloat" where
  "py_float PNone = Inl TypeError"
| "py_float (PBool b) = Inr (Finite (if b then 1 else 0))"
| "py_float (PInt n) = (if \<bar>n\<bar> \<ge> 2 ^ 1024 - 2 ^ 970 then Inl OverflowError else Inr (Finite (real_of_int n)))"
| "py_float (PFloat f) = Inr f"
| "py_float (PStr s) = py_float_str s"

section \<open>Frequency classifier\<close>

text \<open>\<open>qrg2band_khz\<close>: the chain of range tests of the source, in its order.\<close>

definition band_of_float :: "pyfloat \<Rightarrow> string" where
  "band_of_float f =
    (if float_lt (Finite 1000) f \<and> float_lt f (Finite 2000) then ''160m''
     else if float_lt (Finite 3000) f \<and> float_lt f (Finite 4000) then ''80m''
     else if float_lt (Finite 6000) f \<and> float_lt f (Finite 8000) then ''40m''
     else if float_lt (Finite 9000) f \<and> float_lt f (Finite 11000) then ''30m''
     else if float_lt (Finite 13000) f \<and> float_lt f (Finite 15000) then ''20m''
     else if float_lt (Finite 17000) f \<and> float_lt f (Finite 19000) then ''17m''
     else if float_lt (Finite 20000) f \<and> float_lt f (Finite 22000) then ''15m''
     else if float_lt (Finite 23000) f \<and> float_lt f (Finite 25000) then ''12m''
     else if float_lt (Finite 27000) f \<and> float_lt f (Finite 30000) then ''10m''
     else if float_lt (Finite 49000) f \<and> float_lt f (Finite 52000) then ''6m''
     else if float_lt (Finite 69000) f \<and> float_lt f (Finite 71000) then ''4m''
     else if float_lt (Finite 140000) f \<and> float_lt f (Finite 150000) then ''2m''
     else if float_lt (Finite 430000) f \<and> float_lt f (Finite 440000) then ''70cm''
     else '''')"

definition qrg2band_khz :: "pyval \<Rightarrow> string" where
  "qrg2band_khz qrg_khz = (case py_float qrg_khz of Inl e \<Rightarrow> '''' | Inr f \<Rightarrow> band_of_float f)"

text \<open>The ranges of the chain as a table: lower bound, upper bound (both excluded), label.\<close>

definition band_table :: "(real \<times> real \<times> string) list" where
  "band_table =
    [(1000, 2000, ''160m''), (3000, 4000, ''80m''), (6000, 8000, ''40m''),
     (9000, 11000, ''30m''), (13000, 15000, ''20m''), (17000, 19000, ''17m''),
     (20000, 22000, ''15m''), (23000, 25000, ''12m''), (27000, 30000, ''10m''),
     (49000, 52000, ''6m''), (69000, 71000, ''4m''), (140000, 150000, ''2m''),
     (430000, 440000, ''70cm'')]"

definition in_band :: "pyfloat \<Rightarrow> real \<times> real \<times> string \<Rightarrow> bool" where
  "in_band f r = (case r of (lo, hi, l) \<Rightarrow> float_lt (Finite lo) f \<and> float_lt f (Finite hi))"

definition table_label :: "pyfloat \<Rightarrow> string" where
  "table_label f = (case filter (in_band f) band_table of [] \<Rightarrow> '''' | (lo, hi, l) # _ \<Rightarrow> l)"

section \<open>Spot cache\<close>

text \<open>
  The cache is a \<open>collections.deque\<close> with a \<open>maxlen\<close>. \<open>append\<close> adds at the right end
  and, when the length then exceeds \<open>maxlen\<close>, removes the leftmost element. The
  constructor \<open>deque(iterable, maxlen=m)\<close> raises ValueError for a negative \<open>m\<close> and
  otherwise appends the elements of the iterable, one at a time, to an empty deque.
\<close>

record 'a deque =
  items :: "'a list"
  maxlen :: nat

definition deque_append :: "'a deque \<Rightarrow> 'a \<Rightarrow> 'a deque" where
  "deque_append d x = (let ys = items d @ [x] in
     d\<lparr>items := (if length ys > maxlen d then tl ys else ys)\<rparr>)"











section \<open>Connection manager: the write operations\<close>

text \<open>
  The client object holds the \<open>connected\<close> flag and the connection \<open>tn\<close> (None before the
  first connection attempt). A connection is modelled by the commands written to it and by
  whether a write succeeds; a failing write raises, and both callers catch the exception.
  Log lines are not part of the state.
\<close>

record connection =
  written :: "string list"
  writable :: bool

record client =
  connected :: bool
  tn :: "connection option"

definition tn_write :: "string \<Rightarrow> connection \<Rightarrow> py_error + connection" where
  "tn_write cmd c = (if writable c then Inr (c\<lparr>written := written c @ [cmd]\<rparr>) else Inl OSError)"

text \<open>\<open>send_spot\<close>: returns False when there is no live session or when the write raises.\<close>

definition send_spot :: "string \<Rightarrow> string \<Rightarrow> string \<Rightarrow> client \<Rightarrow> bool \<times> client" where
  "send_spot frequency callsign remarks cl =
     (if \<not> connected cl \<or> tn cl = None then (False, cl)
      else (case tn cl of
          None \<Rightarrow> (False, cl)
        | Some c \<Rightarrow>
            (case tn_write (''dx '' @ frequency @ '' '' @ callsign @ '' '' @ remarks @ [CHR 0x0A]) c of
               Inl e \<Rightarrow> (False, cl)
             | Inr c' \<Rightarrow> (True, cl\<lparr>tn := Some c'\<rparr>))))"

text \<open>An HTTP response: the status code and the JSON object of the body.\<close>

record response =
  status :: nat
  body :: "(string \<times> string) list"

text \<open>
  The route \<open>/sndspot\<close>, given the fields of the request: both are required (a missing
  or empty field is falsy), the remarks default to the empty string. (Where
  \<open>request.get_json()\<close> refuses a post that is not JSON with status 415, the route fails
  before the fields are read and nothing else happens; that answer is left out.)
\<close>

definition sndspot :: "string option \<Rightarrow> string option \<Rightarrow> string option \<Rightarrow> client \<Rightarrow> response \<times> client" where
  "sndspot freq call remarks cl =
     (case (freq, call) of
        (Some f, Some c) \<Rightarrow>
          if f = [] \<or> c = [] then (\<lparr>status = 400, body = [(''error'', ''frequency and callsign are required'')]\<rparr>, cl)
          else (case send_spot f c (case remarks of None \<Rightarrow> [] | Some r \<Rightarrow> r) cl of
                  (True, cl') \<Rightarrow> (\<lparr>status = 200, body = [(''status'', ''ok'')]\<rparr>, cl')
                | (False, cl') \<Rightarrow> (\<lparr>status = 500, body = [(''status'', ''failed'')]\<rparr>, cl'))
      | _ \<Rightarrow> (\<lparr>status = 400, body = [(''error'', ''frequency and callsign are required'')]\<rparr>, cl))"

text \<open>
  The route \<open>/sendcmd\<close>, behind \<open>requires_auth\<close> (\<open>authorised\<close> is the outcome of the
  credential check; a refused request gets 401). The command is stripped, so it never ends
  in a newline and one is always appended before the write. The body of the 500 response
  carries the text of the exception, written here as a fixed string.
\<close>

definition send_telnet_cmd :: "bool \<Rightarrow> string \<Rightarrow> client \<Rightarrow> response \<times> client" where
  "send_telnet_cmd authorised form_cmd cl =
     (if \<not> authorised then (\<lparr>status = 401, body = []\<rparr>, cl)
      else let cmd = strip form_cmd in
        if cmd = [] then (\<lparr>status = 400, body = [(''error'', ''No command provided'')]\<rparr>, cl)
        else if \<not> connected cl \<or> tn cl = None
          then (\<lparr>status = 400, body = [(''error'', ''DXCluster client not connected'')]\<rparr>, cl)
          else (case tn cl of
              None \<Rightarrow> (\<lparr>status = 400, body = [(''error'', ''DXCluster client not connected'')]\<rparr>, cl)
            | Some c \<Rightarrow>
                (case tn_write (cmd @ [CHR 0x0A]) c of
                   Inl e \<Rightarrow> (\<lparr>status = 500, body = [(''error'', ''write failed'')]\<rparr>, cl)
                 | Inr c' \<Rightarrow> (\<lparr>status = 200, body = [(''status'', ''sent''), (''cmd'', strip (cmd @ [CHR 0x0A]))]\<rparr>,
                             cl\<lparr>tn := Some c'\<rparr>))))"

text \<open>A live session: the flag is set and a connection object exists.\<close>

definition live :: "client \<Rightarrow> bool" where
  "live cl = (connected cl \<and> tn cl \<noteq> None)"

section \<open>Enrichment cache\<close>

text \<open>
  \<open>dxcc_lookup\<close> keeps a dictionary from call sign to the last result (key \<open>v\<close>) and the time it was
  stored (key \<open>t\<close>), and a counter of consecutive errors. The outbound POST is the only effect outside
  the process; the state records the call signs posted, in order. What the service answers
  is an input of the model: a transport failure, a response that is not ok, a body that
  makes \<open>resp.json()\<close> or the normalisation raise, or a body whose normalised record is
  \<open>r\<close>. Times are the seconds of \<open>time.time()\<close>, taken as real numbers.
\<close>

definition dxcc_cache_ttl :: real where
  "dxcc_cache_ttl = 3600"

record 'v cache_entry =
  cached_v :: 'v
  cached_t :: real

record 'v dxcc_state =
  dxcc_cache :: "string \<rightharpoonup> 'v cache_entry"
  consecutive_dxcc_errors :: nat
  posted :: "string list"

datatype 'v http_reply = Transport_failure | Not_ok nat | Bad_body | Ok_body 'v

definition dxcc_request :: "real \<Rightarrow> string \<Rightarrow> 'v http_reply \<Rightarrow> 'v dxcc_state \<Rightarrow> 'v option \<times> 'v dxcc_state" where
  "dxcc_request now call reply st =
     (let st' = st\<lparr>posted := posted st @ [call]\<rparr> in
      case reply of
        Ok_body result \<Rightarrow>
          (Some result,
           st'\<lparr>dxcc_cache := (dxcc_cache st')(call \<mapsto> \<lparr>cached_v = result, cached_t = now\<rparr>),
               consecutive_dxcc_errors := 0\<rparr>)
      | _ \<Rightarrow> (None, st'\<lparr>consecutive_dxcc_errors := consecutive_dxcc_errors st' + 1\<rparr>))"

definition dxcc_lookup :: "real \<Rightarrow> string \<Rightarrow> 'v http_reply \<Rightarrow> 'v dxcc_state \<Rightarrow> 'v option \<times> 'v dxcc_state" where
  "dxcc_lookup now call reply st =
     (case dxcc_cache st call of
        Some cached \<Rightarrow>
          if now - cached_t cached < dxcc_cache_ttl then (Some (cached_v cached), st)
          else dxcc_request now call reply st
      | None \<Rightarrow> dxcc_request now call reply st)"

section \<open>Timestamp reconstructor\<close>

text \<open>
  A \<open>datetime\<close> in UTC. The constructor raises ValueError for a field out of range;
  subtraction of two datetimes gives a \<open>timedelta\<close>, held in microseconds; subtracting a
  day goes back one calendar day and raises OverflowError before 0001-01-01.
\<close>

record datetime =
  year :: nat
  month :: nat
  day :: nat
  hour :: nat
  minute :: nat
  second :: nat
  microsecond :: nat

definition is_leap :: "nat \<Rightarrow> bool" where
  "is_leap y = (y mod 4 = 0 \<and> (y mod 100 \<noteq> 0 \<or> y mod 400 = 0))"

definition days_in_month :: "nat \<Rightarrow> nat \<Rightarrow> nat" where
  "days_in_month y m =
     (if m = 2 then (if is_leap y then 29 else 28)
      else if m = 4 \<or> m = 6 \<or> m = 9 \<or> m = 11 then 30 else 31)"

definition valid_datetime :: "datetime \<Rightarrow> bool" where
  "valid_datetime d =
     (1 \<le> year d \<and> year d \<le> 9999 \<and> 1 \<le> month d \<and> month d \<le> 12 \<and>
      1 \<le> day d \<and> day d \<le> days_in_month (year d) (month d) \<and>
      hour d \<le> 23 \<and> minute d \<le> 59 \<and> second d \<le> 59 \<and> microsecond d \<le> 999999)"

definition datetime_new :: "nat \<Rightarrow> nat \<Rightarrow> nat \<Rightarrow> int \<Rightarrow> int \<Rightarrow> nat \<Rightarrow> nat \<Rightarrow> py_error + datetime" where
  "datetime_new y m d hh mm ss us =
     (if 1 \<le> y \<and> y \<le> 9999 \<and> 1 \<le> m \<and> m \<le> 12 \<and> 1 \<le> d \<and> d \<le> days_in_month y m \<and>
         0 \<le> hh \<and> hh \<le> 23 \<and> 0 \<le> mm \<and> mm \<le> 59 \<and> ss \<le> 59 \<and> us \<le> 999999
      then Inr \<lparr>year = y, month = m, day = d, hour = nat hh, minute = nat mm,
                second = ss, microsecond = us\<rparr>
      else Inl ValueError)"

definition days_before_year :: "nat \<Rightarrow> nat" where
  "days_before_year y = (y - 1) * 365 + (y - 1) div 4 - (y - 1) div 100 + (y - 1) div 400"

definition days_before_month :: "nat \<Rightarrow> nat \<Rightarrow> nat" where
  "days_before_month y m = sum_list (map (days_in_month y) [1..<m])"

definition toordinal :: "datetime \<Rightarrow> nat" where
  "toordinal d = days_before_year (year d) + days_before_month (year d) (month d) + day d"

text \<open>\<open>a - b\<close> in microseconds.\<close>

definition datetime_sub :: "datetime \<Rightarrow> datetime \<Rightarrow> int" where
  "datetime_sub a b =
     ((int (toordinal a) - int (toordinal b)) * 86400
       + (int (hour a) * 3600 + int (minute a) * 60 + int (second a))
       - (int (hour b) * 3600 + int (minute b) * 60 + int (second b))) * 1000000
     + (int (microsecond a) - int (microsecond b))"

definition timedelta_hours :: "int \<Rightarrow> int" where
  "timedelta_hours h = h * 3600 * 1000000"

text \<open>\<open>d - timedelta(days=1)\<close>.\<close>

definition sub_one_day :: "datetime \<Rightarrow> py_error + datetime" where
  "sub_one_day d =
     (if 1 < day d then Inr (d\<lparr>day := day d - 1\<rparr>)
      else if 1 < month d then Inr (d\<lparr>month := month d - 1, day := days_in_month (year d) (month d - 1)\<rparr>)
      else if 1 < year d then Inr (d\<lparr>year := year d - 1, month := 12, day := 31\<rparr>)
      else Inl OverflowError)"

text \<open>\<open>s.rstrip("Z")\<close> removes every trailing Z.\<close>

definition rstrip_Z :: "string \<Rightarrow> string" where
  "rstrip_Z s = rev (dropWhile (\<lambda>c. c = CHR ''Z'') (rev s))"

text \<open>
  \<open>parse_z_time\<close>, with the clock reading \<open>now\<close> as a parameter. A stripped literal of
  three characters is \<open>HMM\<close>, one of four is \<open>HHMM\<close>; any other length returns \<open>now\<close>.
\<close>

definition parse_z_time :: "datetime \<Rightarrow> string \<Rightarrow> py_error + datetime" where
  "parse_z_time now timestr =
     (let t = rstrip_Z timestr in
      if length t = 3 \<or> length t = 4 then
        (case (if length t = 3 then (py_int_str (take 1 t), py_int_str (take 2 (drop 1 t)))
               else (py_int_str (take 2 t), py_int_str (take 2 (drop 2 t)))) of
           (Inl e, _) \<Rightarrow> Inl e
         | (Inr hh, Inl e) \<Rightarrow> Inl e
         | (Inr hh, Inr mm) \<Rightarrow>
             (case datetime_new (year now) (month now) (day now) hh mm (second now) (microsecond now) of
                Inl e \<Rightarrow> Inl e
              | Inr when \<Rightarrow>
                  if datetime_sub when now > timedelta_hours 12 then sub_one_day when
                  else Inr when))
      else Inr now)"

text \<open>The literal \<open>HHMM\<close> followed by Z, for an hour and a minute below 100.\<close>

definition digit_char :: "nat \<Rightarrow> char" where
  "digit_char n = char_of (48 + n)"

definition hhmm_literal :: "nat \<Rightarrow> nat \<Rightarrow> string" where
  "hhmm_literal hh mm =
     [digit_char (hh div 10), digit_char (hh mod 10), digit_char (mm div 10), digit_char (mm mod 10), CHR ''Z'']"

text \<open>The literal \<open>HMM\<close> followed by Z, for an hour below 10.\<close>

definition hmm_literal :: "nat \<Rightarrow> nat \<Rightarrow> string" where
  "hmm_literal hh mm = [digit_char hh, digit_char (mm div 10), digit_char (mm mod 10), CHR ''Z'']"

section \<open>Regular expressions\<close>

text \<open>
  The two patterns of the line parser are matched by a backtracking matcher. A match state
  is the number of characters consumed, the rest of the input and the groups captured so
  far, latest first. Matching a pattern from a state gives the list of all states in
  which it can end, in the order in which a backtracking matcher tries them; the first
  element is the match that \<open>re\<close> reports. A greedy repetition tries one more iteration
  before it tries to stop, a lazy one the other way round. An iteration must consume input,
  which every repeated sub-pattern of the two patterns does.
\<close>

datatype regex =
    Lit char
  | Cls "char \<Rightarrow> bool"
  | Eps
  | Seq regex regex
  | Alt regex regex
  | Star regex
  | LazyStar regex
  | Group string regex
  | Bos
  | Eos

type_synonym mstate = "nat \<times> string \<times> (string \<times> string) list"

function (sequential) rmatch :: "regex \<Rightarrow> mstate \<Rightarrow> mstate list" where
  "rmatch (Lit c) (p, s, g) = (case s of [] \<Rightarrow> [] | x # xs \<Rightarrow> if x = c then [(Suc p, xs, g)] else [])"
| "rmatch (Cls f) (p, s, g) = (case s of [] \<Rightarrow> [] | x # xs \<Rightarrow> if f x then [(Suc p, xs, g)] else [])"
| "rmatch Eps st = [st]"
| "rmatch (Seq a b) st = concat (map (rmatch b) (rmatch a st))"
| "rmatch (Alt a b) st = rmatch a st @ rmatch b st"
| "rmatch (Star a) (p, s, g) =
     concat (map (\<lambda>st'. if length (fst (snd st')) < length s then rmatch (Star a) st' else [])
                 (rmatch a (p, s, g))) @ [(p, s, g)]"
| "rmatch (LazyStar a) (p, s, g) =
     (p, s, g) # concat (map (\<lambda>st'. if length (fst (snd st')) < length s then rmatch (LazyStar a) st' else [])
                              (rmatch a (p, s, g)))"
| "rmatch (Group n a) (p, s, g) =
     map (\<lambda>(p', s', g'). (p', s', (n, take (p' - p) s) # g')) (rmatch a (p, s, g))"
| "rmatch Bos (p, s, g) = (if p = 0 then [(p, s, g)] else [])"
| "rmatch Eos (p, s, g) = (if s = [] \<or> s = [CHR 0x0A] then [(p, s, g)] else [])"
  by pat_completeness auto
termination
  by (relation "measure size <*lex*> measure (\<lambda>st. length (fst (snd st)))") auto


text \<open>Derived forms: \<open>r+\<close>, \<open>r+?\<close>, \<open>r?\<close> and a literal word.\<close>

definition Plus :: "regex \<Rightarrow> regex" where
  "Plus r = Seq r (Star r)"

definition LazyPlus :: "regex \<Rightarrow> regex" where
  "LazyPlus r = Seq r (LazyStar r)"

definition Opt :: "regex \<Rightarrow> regex" where
  "Opt r = Alt r Eps"

definition Word :: "string \<Rightarrow> regex" where
  "Word w = foldr (\<lambda>c r. Seq (Lit c) r) w Eps"

definition Seqs :: "regex list \<Rightarrow> regex" where
  "Seqs rs = foldr Seq rs Eps"

text \<open>The character classes \<open>\s\<close>, \<open>\S\<close>, \<open>[0-9]\<close>, \<open>[A-Za-z]\<close> and the dot.\<close>

definition ws :: regex where "ws = Cls is_space"
definition nonws :: regex where "nonws = Cls (\<lambda>c. \<not> is_space c)"
definition dig :: regex where "dig = Cls is_digit"
definition alpha :: regex where "alpha = Cls (\<lambda>c. is_upper c \<or> is_lower c)"
definition anychar :: regex where "anychar = Cls (\<lambda>c. c \<noteq> CHR 0x0A)"

text \<open>\<open>pattern.match\<close> tries position 0 only; \<open>pattern.search\<close> tries every position in turn.\<close>

definition re_match :: "regex \<Rightarrow> string \<Rightarrow> (string \<times> string) list option" where
  "re_match r s = (case rmatch r (0, s, []) of [] \<Rightarrow> None | (p, s', g) # _ \<Rightarrow> Some g)"

fun search_from :: "regex \<Rightarrow> nat \<Rightarrow> string \<Rightarrow> (string \<times> string) list option" where
  "search_from r p s =
     (case rmatch r (p, s, []) of
        (p', s', g) # _ \<Rightarrow> Some g
      | [] \<Rightarrow> (case s of [] \<Rightarrow> None | _ # s' \<Rightarrow> search_from r (Suc p) s'))"

definition re_search :: "regex \<Rightarrow> string \<Rightarrow> (string \<times> string) list option" where
  "re_search r s = search_from r 0 s"

text \<open>\<open>m.group(name)\<close>: None for a group that took no part in the match.\<close>

definition group :: "(string \<times> string) list \<Rightarrow> string \<Rightarrow> string option" where
  "group g name = map_of g name"

section \<open>Line parser\<close>

text \<open>
  \<open>TELNET_RE\<close>:
  \<^verbatim>\<open>DX\s+de\s+(?P<spotter>\S+):\s+(?P<freq>[0-9]+\.?[0-9]*)\s+(?P<spotted>\S+)\s+(?P<rest>.+?)\s+(?P<time>[0-9]{3,4}Z)\<close>
\<close>

definition freq_re :: regex where
  "freq_re = Seqs [Plus dig, Opt (Lit CHR ''.''), Star dig]"

definition TELNET_RE :: regex where
  "TELNET_RE = Seqs
     [Word ''DX'', Plus ws, Word ''de'', Plus ws,
      Group ''spotter'' (Plus nonws), Lit CHR '':'', Plus ws,
      Group ''freq'' freq_re, Plus ws,
      Group ''spotted'' (Plus nonws), Plus ws,
      Group ''rest'' (LazyPlus anychar), Plus ws,
      Group ''time'' (Seqs [dig, dig, dig, Opt dig, Lit CHR ''Z''])]"

text \<open>
  \<open>SHDX_RE\<close>:
  \<^verbatim>\<open>^(?P<freq>[0-9]+\.?[0-9]*)\s+(?P<spotted>\S+)\s+(?P<date>[0-9]{2}-[A-Za-z]{3}-[0-9]{4})\s+(?P<time>[0-9]{4}Z)\s+(via\s+(?P<via>\S+)\s+)?(?P<message>.+?)\s*<(?P<spotter>\S+)>$\<close>
\<close>

definition SHDX_RE :: regex where
  "SHDX_RE = Seqs
     [Bos, Group ''freq'' freq_re, Plus ws,
      Group ''spotted'' (Plus nonws), Plus ws,
      Group ''date'' (Seqs [dig, dig, Lit CHR ''-'', alpha, alpha, alpha, Lit CHR ''-'', dig, dig, dig, dig]), Plus ws,
      Group ''time'' (Seqs [dig, dig, dig, dig, Lit CHR ''Z'']), Plus ws,
      Opt (Seqs [Word ''via'', Plus ws, Group ''via'' (Plus nonws), Plus ws]),
      Group ''message'' (LazyPlus anychar),
      Star ws, Lit CHR ''<'', Group ''spotter'' (Plus nonws), Lit CHR ''>'', Eos]"

subsection \<open>Conversions used when a spot is built\<close>

text \<open>\<open>int(x)\<close> for a float truncates towards zero; an infinity raises OverflowError, NaN ValueError.\<close>

definition py_int_float :: "pyfloat \<Rightarrow> py_error + int" where
  "py_int_float f = (case f of
       Finite x \<Rightarrow> Inr (if 0 \<le> x then \<lfloor>x\<rfloor> else \<lceil>x\<rceil>)
     | PosInf \<Rightarrow> Inl OverflowError
     | NegInf \<Rightarrow> Inl OverflowError
     | NaN \<Rightarrow> Inl ValueError)"

text \<open>\<open>str(n)\<close> for an int: the decimal digits, with a minus sign for a negative number.\<close>

fun digits_of :: "nat \<Rightarrow> string" where
  "digits_of n = (if n < 10 then [digit_char n] else digits_of (n div 10) @ [digit_char (n mod 10)])"

declare digits_of.simps [simp del]

definition py_str_int :: "int \<Rightarrow> string" where
  "py_str_int n = (if n < 0 then CHR ''-'' # digits_of (nat (- n)) else digits_of (nat n))"

text \<open>A number written with a fixed count of digits, zero-padded, as \<open>%02d\<close> does.\<close>

fun zpad :: "nat \<Rightarrow> nat \<Rightarrow> string" where
  "zpad 0 n = []"
| "zpad (Suc w) n = zpad w (n div 10) @ [digit_char (n mod 10)]"

text \<open>
  \<open>datetime.isoformat()\<close> of a UTC datetime: the fraction is left out when the microsecond
  is 0 and has six digits otherwise; with \<open>timespec="milliseconds"\<close> it always has three
  digits, the microsecond being truncated.
\<close>

definition iso_seconds :: "datetime \<Rightarrow> string" where
  "iso_seconds d = zpad 4 (year d) @ ''-'' @ zpad 2 (month d) @ ''-'' @ zpad 2 (day d) @ ''T'' @
     zpad 2 (hour d) @ '':'' @ zpad 2 (minute d) @ '':'' @ zpad 2 (second d)"

definition isoformat :: "datetime \<Rightarrow> string" where
  "isoformat d = iso_seconds d @ (if microsecond d = 0 then [] else ''.'' @ zpad 6 (microsecond d)) @ ''+00:00''"

definition isoformat_milliseconds :: "datetime \<Rightarrow> string" where
  "isoformat_milliseconds d = iso_seconds d @ ''.'' @ zpad 3 (microsecond d div 1000) @ ''+00:00''"

text \<open>\<open>s.replace(old, new)\<close>: every occurrence, from the left, without overlap.\<close>

function replace :: "string \<Rightarrow> string \<Rightarrow> string \<Rightarrow> string" where
  "replace old new s =
     (if old = [] then new @ concat (map (\<lambda>c. c # new) s)
      else (case s of
          [] \<Rightarrow> []
        | c # cs \<Rightarrow>
            if take (length old) s = old then new @ replace old new (drop (length old) s)
            else c # replace old new cs))"
  by pat_completeness auto
termination
  by (relation "measure (\<lambda>(old, new, s). length s)") auto

declare replace.simps [simp del]

text \<open>\<open>sub in s\<close> for strings.\<close>

fun contains :: "string \<Rightarrow> string \<Rightarrow> bool" where
  "contains sub [] = (sub = [])"
| "contains sub (c # cs) = (take (length sub) (c # cs) = sub \<or> contains sub cs)"

definition detect_source_from_message :: "string \<Rightarrow> string" where
  "detect_source_from_message msg = (let m = lower msg in
     if contains ''pota'' m then ''pota''
     else if contains ''cq'' m then ''cq''
     else ''cluster'')"

text \<open>
  \<open>datetime.strptime(date_str + " " + timestr, "%d-%b-%Y %H%MZ")\<close> on a date of the shape
  \<open>DD-Mon-YYYY\<close> and a time of the shape \<open>HHMMZ\<close>, in the C locale: the month
  abbreviation is matched without regard to case, and a day, month, year, hour or minute
  out of range raises ValueError. Second and microsecond are 0.
\<close>

definition month_abbr :: "string list" where
  "month_abbr = [''jan'', ''feb'', ''mar'', ''apr'', ''may'', ''jun'',
                 ''jul'', ''aug'', ''sep'', ''oct'', ''nov'', ''dec'']"

fun index_of :: "'a \<Rightarrow> 'a list \<Rightarrow> nat option" where
  "index_of x [] = None"
| "index_of x (y # ys) = (if x = y then Some 0 else map_option Suc (index_of x ys))"

definition strptime :: "string \<Rightarrow> string \<Rightarrow> py_error + datetime" where
  "strptime date_str timestr =
     (if length date_str = 11 \<and> length timestr = 5 \<and>
         list_all is_digit (take 2 date_str) \<and> date_str ! 2 = CHR ''-'' \<and> date_str ! 6 = CHR ''-'' \<and>
         list_all is_digit (drop 7 date_str) \<and> list_all is_digit (take 4 timestr) \<and>
         timestr ! 4 = CHR ''Z''
      then (case index_of (lower (take 3 (drop 3 date_str))) month_abbr of
              None \<Rightarrow> Inl ValueError
            | Some i \<Rightarrow>
                datetime_new (digits_val (drop 7 date_str)) (Suc i) (digits_val (take 2 date_str))
                  (int (digits_val (take 2 timestr))) (int (digits_val (take 2 (drop 2 timestr)))) 0 0)
      else Inl ValueError)"

subsection \<open>Spot records\<close>

text \<open>
  A spot is a dictionary with the keys below. The relay branch stores the frequency as a
  string, the bulk-listing branch as an int. (The two enrichment keys are added later by
  \<open>populate_dxcc\<close> and are left out.)
\<close>

record spot =
  spotter :: string
  spotted :: string
  frequency :: pyval
  message :: string
  "when" :: string
  source :: string
  band :: string

text \<open>A group that the pattern always sets.\<close>

definition group_str :: "(string \<times> string) list \<Rightarrow> string \<Rightarrow> string" where
  "group_str g name = (case group g name of None \<Rightarrow> [] | Some x \<Rightarrow> x)"

text \<open>The relay branch of the read loop, after \<open>TELNET_RE\<close> has matched with groups \<open>g\<close>.\<close>

definition relay_spot :: "datetime \<Rightarrow> (string \<times> string) list \<Rightarrow> py_error + spot" where
  "relay_spot now g =
     (let freq = group_str g ''freq''; msg = strip (group_str g ''rest'') in
      case parse_z_time now (group_str g ''time'') of
        Inl e \<Rightarrow> Inl e
      | Inr when_dt \<Rightarrow>
          (case py_float_str freq of
             Inl e \<Rightarrow> Inl e
           | Inr f \<Rightarrow>
               (case py_int_float f of
                  Inl e \<Rightarrow> Inl e
                | Inr n \<Rightarrow>
                    Inr \<lparr>spotter = group_str g ''spotter'',
                         spotted = group_str g ''spotted'',
                         frequency = PStr (py_str_int n),
                         message = msg,
                         when = replace ''+00:00'' ''Z'' (isoformat when_dt),
                         source = detect_source_from_message msg,
                         band = qrg2band_khz (PStr freq)\<rparr>)))"

text \<open>The bulk-listing branch, after \<open>SHDX_RE\<close> has matched with groups \<open>g\<close>.\<close>

definition bulk_spot :: "datetime \<Rightarrow> (string \<times> string) list \<Rightarrow> py_error + spot" where
  "bulk_spot now g =
     (let freq = group_str g ''freq''; msg = strip (group_str g ''message'') in
      case strptime (group_str g ''date'') (group_str g ''time'') of
        Inl e \<Rightarrow> Inl e
      | Inr d \<Rightarrow>
          (let dt = d\<lparr>second := second now, microsecond := microsecond now\<rparr>;
               msg' = (case group g ''via'' of
                         None \<Rightarrow> msg
                       | Some via \<Rightarrow> if via = [] then msg else msg @ '' via '' @ via)
           in case py_float_str freq of
                Inl e \<Rightarrow> Inl e
              | Inr f \<Rightarrow>
                  (case py_int_float f of
                     Inl e \<Rightarrow> Inl e
                   | Inr n \<Rightarrow>
                       Inr \<lparr>spotter = group_str g ''spotter'',
                            spotted = group_str g ''spotted'',
                            frequency = PInt n,
                            message = msg',
                            when = replace ''+00:00'' ''Z'' (isoformat_milliseconds dt),
                            source = ''cluster'',
                            band = qrg2band_khz (PStr freq)\<rparr>)))"

text \<open>
  One line of the read loop: the stripped text is tried against the relay pattern with
  \<open>search\<close>, then against the bulk-listing pattern with \<open>match\<close>. An exception is caught
  by the loop and the line is dropped.
\<close>

datatype line_result = No_spot | Raised py_error | Relay_spot spot | Bulk_spot spot

definition parse_line :: "datetime \<Rightarrow> string \<Rightarrow> line_result" where
  "parse_line now line =
     (let text = strip line in
      if text = [] then No_spot
      else (case re_search TELNET_RE text of
          Some g \<Rightarrow> (case relay_spot now g of Inl e \<Rightarrow> Raised e | Inr sp \<Rightarrow> Relay_spot sp)
        | None \<Rightarrow>
            (case re_match SHDX_RE text of
               Some g \<Rightarrow> (case bulk_spot now g of Inl e \<Rightarrow> Raised e | Inr sp \<Rightarrow> Bulk_spot sp)
             | None \<Rightarrow> No_spot)))"

text \<open>
  The frequency of a relay spot as the specification words it: the text parsed as a floating
  value, then rounded to the nearest integer and written as a string. It is compared with
  what \<open>relay_spot\<close> computes.
\<close>

definition spec_rounded_frequency :: "string \<Rightarrow> py_error + string" where
  "spec_rounded_frequency freq = (case py_float_str freq of
       Inl e \<Rightarrow> Inl e
     | Inr (Finite x) \<Rightarrow> Inr (py_str_int (round x))
     | Inr _ \<Rightarrow> Inl OverflowError)"

section \<open>Serving layer: reads of the cache\<close>

text \<open>
  \<open>datetime.fromisoformat\<close> on the strings that \<open>isoformat\<close> produces for a UTC datetime:
  \<open>YYYY-MM-DDTHH:MM:SS\<close>, an optional fraction of three or six digits, and the offset
  \<open>+00:00\<close>. Any other string is outside what the cache can hold and is given ValueError.
\<close>

definition iso_shape :: "string \<Rightarrow> bool" where
  "iso_shape s =
     (19 \<le> length s \<and>
      list_all is_digit (take 4 s) \<and> s ! 4 = CHR ''-'' \<and>
      list_all is_digit (take 2 (drop 5 s)) \<and> s ! 7 = CHR ''-'' \<and>
      list_all is_digit (take 2 (drop 8 s)) \<and>
      list_all is_digit (take 2 (drop 11 s)) \<and> s ! 13 = CHR '':'' \<and>
      list_all is_digit (take 2 (drop 14 s)) \<and> s ! 16 = CHR '':'' \<and>
      list_all is_digit (take 2 (drop 17 s)))"

definition iso_fraction :: "string \<Rightarrow> nat option" where
  "iso_fraction r =
     (if r = ''+00:00'' then Some 0
      else if length r = 10 \<and> hd r = CHR ''.'' \<and> list_all is_digit (take 3 (drop 1 r)) \<and>
              drop 4 r = ''+00:00''
        then Some (digits_val (take 3 (drop 1 r)) * 1000)
      else if length r = 13 \<and> hd r = CHR ''.'' \<and> list_all is_digit (take 6 (drop 1 r)) \<and>
              drop 7 r = ''+00:00''
        then Some (digits_val (take 6 (drop 1 r)))
      else None)"

definition fromisoformat :: "string \<Rightarrow> py_error + datetime" where
  "fromisoformat s =
     (if iso_shape s then
        (case iso_fraction (drop 19 s) of
           None \<Rightarrow> Inl ValueError
         | Some us \<Rightarrow>
             datetime_new (digits_val (take 4 s)) (digits_val (take 2 (drop 5 s)))
               (digits_val (take 2 (drop 8 s))) (int (digits_val (take 2 (drop 11 s))))
               (int (digits_val (take 2 (drop 14 s)))) (digits_val (take 2 (drop 17 s))) us)
      else Inl ValueError)"

text \<open>
  \<open>api_spot\<close>: the loop over the cache, oldest first, keeps the record chosen so far
  together with its timestamp. A record takes part when its frequency equals the string
  \<open>q\<close>; in Python a string never equals an int. An exception of \<open>fromisoformat\<close> is not
  caught. The result None stands for the empty object of the response.
\<close>

fun api_spot_loop :: "string \<Rightarrow> spot list \<Rightarrow> (spot \<times> datetime) option \<Rightarrow> py_error + (spot \<times> datetime) option" where
  "api_spot_loop q [] acc = Inr acc"
| "api_spot_loop q (s # ss) acc =
     (if frequency s = PStr q then
        (case fromisoformat (replace ''Z'' ''+00:00'' (when s)) of
           Inl e \<Rightarrow> Inl e
         | Inr t \<Rightarrow>
             (case acc of
                None \<Rightarrow> api_spot_loop q ss (Some (s, t))
              | Some (chosen, youngest) \<Rightarrow>
                  if 0 < datetime_sub t youngest then api_spot_loop q ss (Some (s, t))
                  else api_spot_loop q ss acc))
      else api_spot_loop q ss acc)"

definition api_spot :: "nat \<Rightarrow> spot list \<Rightarrow> py_error + spot option" where
  "api_spot qrg_khz cache =
     (case api_spot_loop (py_str_int (int qrg_khz)) cache None of
        Inl e \<Rightarrow> Inl e
      | Inr acc \<Rightarrow> Inr (map_option fst acc))"

text \<open>
  \<open>api_spots\<close> renders the timestamp of each record again, with three fraction digits,
  and falls back to the stored string when that raises; \<open>api_spots_band\<close> returns the
  stored records of a band as they are.
\<close>

definition api_spots_when :: "spot \<Rightarrow> string" where
  "api_spots_when s =
     (case fromisoformat (replace ''Z'' ''+00:00'' (when s)) of
        Inl e \<Rightarrow> when s
      | Inr when_obj \<Rightarrow> replace ''+00:00'' ''Z'' (isoformat_milliseconds when_obj))"

definition api_spots_band :: "string \<Rightarrow> spot list \<Rightarrow> spot list" where
  "api_spots_band b cache = filter (\<lambda>s. band s = b) cache"

text \<open>The number of digits after the decimal point of a timestamp string.\<close>

definition fraction_digits :: "string \<Rightarrow> nat" where
  "fraction_digits s = (case dropWhile (\<lambda>c. c \<noteq> CHR ''.'') s of
       [] \<Rightarrow> 0
     | _ # r \<Rightarrow> length (takeWhile is_digit r))"

section \<open>Frequency classifier: properties\<close>

lemmas literal_defs = py_float_str_def py_int_str_def strip_def lstrip_def rstrip_def split_sign_def
  numeric_strip_def is_numeric_space_def
  lower_def lower_char_def is_space_def is_digit_def digit_val_def digits_val_def digitpart_def
  digitpart_val_def mantissa_ok_def mantissa_val_def is_exp_char_def exponent_ok_def exponent_val_def

lemma band_ranges_exclusive: "length (filter (in_band f) band_table) \<le> 1"
  by (cases f) (simp_all add: band_table_def in_band_def)

lemma band_of_float_table: "band_of_float f = table_label f"
  by (cases f) (simp_all add: band_of_float_def table_label_def band_table_def in_band_def)

lemma qrg2band_khz_table:
  "qrg2band_khz v = (case py_float v of Inl e \<Rightarrow> '''' | Inr f \<Rightarrow> table_label f)"
  by (simp add: qrg2band_khz_def band_of_float_table split: sum.splits)

text \<open>
  C8: for every input, band derivation returns a string and never an error. An input that
  \<open>float\<close> rejects gives the empty string; a numeric input gives the label of the range of
  the table that contains it, of which there is at most one, and the empty string when no
  range contains it. 14074 gives 20m, 999 gives the empty string, 1500 gives 160m and 7100
  gives 40m, as numbers and as strings.
\<close>

theorem qrg2band_khz_classification:
  "(\<forall>f. length (filter (in_band f) band_table) \<le> 1) \<and>
   (\<forall>v. qrg2band_khz v = (case py_float v of Inl e \<Rightarrow> '''' | Inr f \<Rightarrow> table_label f)) \<and>
   qrg2band_khz (PInt 14074) = ''20m'' \<and> qrg2band_khz (PInt 999) = '''' \<and>
   qrg2band_khz (PInt 1500) = ''160m'' \<and> qrg2band_khz (PInt 7100) = ''40m'' \<and>
   qrg2band_khz (PStr ''14074'') = ''20m'' \<and> qrg2band_khz (PStr ''999'') = '''' \<and>
   qrg2band_khz (PStr ''1500'') = ''160m'' \<and> qrg2band_khz (PStr ''7100'') = ''40m'' \<and>
   qrg2band_khz (PStr ''abc'') = '''' \<and> qrg2band_khz PNone = ''''"
proof -
  have ex: "\<forall>f. length (filter (in_band f) band_table) \<le> 1"
    using band_ranges_exclusive by blast
  have tab: "\<forall>v. qrg2band_khz v = (case py_float v of Inl e \<Rightarrow> '''' | Inr f \<Rightarrow> table_label f)"
    by (simp add: qrg2band_khz_table)
  have ints: "qrg2band_khz (PInt 14074) = ''20m''" "qrg2band_khz (PInt 999) = ''''"
    "qrg2band_khz (PInt 1500) = ''160m''" "qrg2band_khz (PInt 7100) = ''40m''"
    by (simp_all add: qrg2band_khz_def band_of_float_def)
  have strs: "qrg2band_khz (PStr ''14074'') = ''20m''" "qrg2band_khz (PStr ''999'') = ''''"
    "qrg2band_khz (PStr ''1500'') = ''160m''" "qrg2band_khz (PStr ''7100'') = ''40m''"
    "qrg2band_khz (PStr ''abc'') = ''''" "qrg2band_khz PNone = ''''"
    by (simp_all add: qrg2band_khz_def band_of_float_def literal_defs)
  from ex tab ints strs show ?thesis by blast
qed

section \<open>Spot cache: properties\<close>


lemma deque_append_maxlen [simp]: "maxlen (deque_append d x) = maxlen d"
  by (simp add: deque_append_def Let_def)













section \<open>Connection manager: properties\<close>

lemma send_spot_not_live: "\<not> live cl \<Longrightarrow> send_spot f c r cl = (False, cl)"
  by (auto simp: live_def send_spot_def split: option.splits)

lemma send_telnet_cmd_not_live:
  "\<not> live cl \<Longrightarrow> snd (send_telnet_cmd a cmd cl) = cl \<and> 400 \<le> status (fst (send_telnet_cmd a cmd cl))"
  by (auto simp: live_def send_telnet_cmd_def Let_def split: option.splits)

lemma sndspot_not_live:
  "\<not> live cl \<Longrightarrow> snd (sndspot f c r cl) = cl \<and> 400 \<le> status (fst (sndspot f c r cl))"
  by (auto simp: sndspot_def send_spot_not_live split: option.splits)

text \<open>
  C9: with no live session, \<open>send_spot\<close> returns False and the two routes return an error
  status (400 or above), and none of them writes to a connection or changes the client: the
  state after the call is the state before it. With a live session and the required fields
  the same calls do write, so the failure is due to the missing session.
\<close>

theorem write_while_disconnected_fails:
  "\<not> live cl \<Longrightarrow>
     send_spot qrg callsign remarks cl = (False, cl) \<and>
     snd (sndspot freq call rem cl) = cl \<and> 400 \<le> status (fst (sndspot freq call rem cl)) \<and>
     snd (send_telnet_cmd authorised cmd cl) = cl \<and> 400 \<le> status (fst (send_telnet_cmd authorised cmd cl)) \<and>
     (authorised \<and> strip cmd \<noteq> [] \<longrightarrow>
        send_telnet_cmd authorised cmd cl =
          (\<lparr>status = 400, body = [(''error'', ''DXCluster client not connected'')]\<rparr>, cl)) \<and>
     (freq = Some qrg \<and> call = Some callsign \<and> qrg \<noteq> [] \<and> callsign \<noteq> [] \<longrightarrow>
        sndspot freq call rem cl = (\<lparr>status = 500, body = [(''status'', ''failed'')]\<rparr>, cl))"
  using send_spot_not_live [of cl] sndspot_not_live [of cl freq call rem]
    send_telnet_cmd_not_live [of cl authorised cmd]
  by (auto simp: sndspot_def send_telnet_cmd_def Let_def live_def split: option.splits)

text \<open>
  The statement of C9 on a client whose flag is down while an old connection object is
  still there, and on a client that never connected.
\<close>

theorem write_while_disconnected_fails_witness:
  "\<not> live \<lparr>connected = False, tn = Some \<lparr>written = [], writable = True\<rparr>\<rparr> \<and>
   send_spot ''14074'' ''DL1XYZ'' ''CQ'' \<lparr>connected = False, tn = Some \<lparr>written = [], writable = True\<rparr>\<rparr> =
     (False, \<lparr>connected = False, tn = Some \<lparr>written = [], writable = True\<rparr>\<rparr>) \<and>
   True \<and> strip ''sh/dx'' \<noteq> [] \<and>
   send_telnet_cmd True ''sh/dx'' \<lparr>connected = False, tn = Some \<lparr>written = [], writable = True\<rparr>\<rparr> =
     (\<lparr>status = 400, body = [(''error'', ''DXCluster client not connected'')]\<rparr>,
      \<lparr>connected = False, tn = Some \<lparr>written = [], writable = True\<rparr>\<rparr>) \<and>
   sndspot (Some ''14074'') (Some ''DL1XYZ'') None \<lparr>connected = False, tn = Some \<lparr>written = [], writable = True\<rparr>\<rparr> =
     (\<lparr>status = 500, body = [(''status'', ''failed'')]\<rparr>,
      \<lparr>connected = False, tn = Some \<lparr>written = [], writable = True\<rparr>\<rparr>) \<and>
   send_spot ''14074'' ''DL1XYZ'' ''CQ'' \<lparr>connected = True, tn = Some \<lparr>written = [], writable = True\<rparr>\<rparr> =
     (True, \<lparr>connected = True, tn = Some \<lparr>written = [''dx 14074 DL1XYZ CQ'' @ [CHR 0x0A]], writable = True\<rparr>\<rparr>)"
  using write_while_disconnected_fails
    [of "\<lparr>connected = False, tn = Some \<lparr>written = [], writable = True\<rparr>\<rparr>"
        "''14074''" "''DL1XYZ''" "''CQ''" "Some ''14074''" "Some ''DL1XYZ''" None True "''sh/dx''"]
  by (simp add: live_def send_spot_def tn_write_def strip_def lstrip_def rstrip_def is_space_def)

section \<open>Enrichment cache: properties\<close>

lemma dxcc_lookup_hit:
  "dxcc_cache st call = Some e \<Longrightarrow> now - cached_t e < dxcc_cache_ttl \<Longrightarrow>
   dxcc_lookup now call reply st = (Some (cached_v e), st)"
  by (simp add: dxcc_lookup_def)

lemma dxcc_lookup_miss:
  "(\<forall>e. dxcc_cache st call = Some e \<longrightarrow> \<not> now - cached_t e < dxcc_cache_ttl) \<Longrightarrow>
   dxcc_lookup now call reply st = dxcc_request now call reply st"
  by (auto simp: dxcc_lookup_def split: option.splits)

lemma dxcc_request_ok:
  "dxcc_request now call (Ok_body r) st =
     (Some r, st\<lparr>posted := posted st @ [call],
                 dxcc_cache := (dxcc_cache st)(call \<mapsto> \<lparr>cached_v = r, cached_t = now\<rparr>),
                 consecutive_dxcc_errors := 0\<rparr>)"
  by (simp add: dxcc_request_def)

lemma dxcc_request_posted:
  "posted (snd (dxcc_request now call reply st)) = posted st @ [call]"
  by (cases reply) (simp_all add: dxcc_request_def)

text \<open>
  C5: a lookup that finds an entry younger than the TTL returns that entry, posts nothing
  and leaves the whole state as it was. So when a first lookup at \<open>t1\<close> finds no fresh
  entry and its request succeeds with \<open>r\<close>, a second lookup for the same call sign at
  \<open>t2\<close> with \<open>t2 - t1\<close> below the TTL returns \<open>r\<close> whatever the service would answer,
  and the two lookups together post exactly one request; a further lookup at \<open>t3\<close> with
  \<open>t3 - t1\<close> at or beyond the TTL posts a second one.
\<close>

theorem dxcc_lookup_ttl:
  "(\<forall>e. dxcc_cache st call = Some e \<and> now - cached_t e < dxcc_cache_ttl \<longrightarrow>
      dxcc_lookup now call reply st = (Some (cached_v e), st)) \<and>
   ((\<forall>e. dxcc_cache st call = Some e \<longrightarrow> \<not> t1 - cached_t e < dxcc_cache_ttl) \<and>
    t2 - t1 < dxcc_cache_ttl \<and> dxcc_cache_ttl \<le> t3 - t1 \<longrightarrow>
      (let (r1, s1) = dxcc_lookup t1 call (Ok_body r) st;
           (r2, s2) = dxcc_lookup t2 call reply2 s1;
           (r3, s3) = dxcc_lookup t3 call reply3 s2
       in r1 = Some r \<and> r2 = Some r \<and> s2 = s1 \<and>
          posted s1 = posted st @ [call] \<and> posted s2 = posted st @ [call] \<and>
          posted s3 = posted st @ [call, call]))"
proof (intro conjI allI impI)
  fix e assume "dxcc_cache st call = Some e \<and> now - cached_t e < dxcc_cache_ttl"
  then show "dxcc_lookup now call reply st = (Some (cached_v e), st)"
    by (simp add: dxcc_lookup_hit)
next
  assume a: "(\<forall>e. dxcc_cache st call = Some e \<longrightarrow> \<not> t1 - cached_t e < dxcc_cache_ttl) \<and>
    t2 - t1 < dxcc_cache_ttl \<and> dxcc_cache_ttl \<le> t3 - t1"
  define s1 where "s1 = st\<lparr>posted := posted st @ [call],
                 dxcc_cache := (dxcc_cache st)(call \<mapsto> \<lparr>cached_v = r, cached_t = t1\<rparr>),
                 consecutive_dxcc_errors := 0\<rparr>"
  have l1: "dxcc_lookup t1 call (Ok_body r) st = (Some r, s1)"
    using a by (simp add: dxcc_lookup_miss dxcc_request_ok s1_def)
  have c1: "dxcc_cache s1 call = Some \<lparr>cached_v = r, cached_t = t1\<rparr>"
    by (simp add: s1_def)
  have l2: "dxcc_lookup t2 call reply2 s1 = (Some r, s1)"
    using dxcc_lookup_hit [OF c1, of t2 reply2] a by simp
  have l3: "dxcc_lookup t3 call reply3 s1 = dxcc_request t3 call reply3 s1"
    using a c1 by (simp add: dxcc_lookup_miss)
  have p3: "posted (snd (dxcc_lookup t3 call reply3 s1)) = posted st @ [call, call]"
    by (simp add: l3 dxcc_request_posted) (simp add: s1_def)
  show "let (r1, s1) = dxcc_lookup t1 call (Ok_body r) st;
           (r2, s2) = dxcc_lookup t2 call reply2 s1;
           (r3, s3) = dxcc_lookup t3 call reply3 s2
       in r1 = Some r \<and> r2 = Some r \<and> s2 = s1 \<and>
          posted s1 = posted st @ [call] \<and> posted s2 = posted st @ [call] \<and>
          posted s3 = posted st @ [call, call]"
  proof -
    obtain r3 s3 where l3': "dxcc_lookup t3 call reply3 s1 = (r3, s3)"
      by (cases "dxcc_lookup t3 call reply3 s1")
    with p3 have "posted s3 = posted st @ [call, call]" by simp
    moreover have "posted s1 = posted st @ [call]" by (simp add: s1_def)
    ultimately show ?thesis by (simp add: l1 l2 l3')
  qed
qed

text \<open>
  The statement of C5 on an empty cache: lookups for K1ABC at 0, 1800 and 3600 seconds,
  the second answered from the cache although the service would fail.
\<close>

theorem dxcc_lookup_ttl_witness:
  "dxcc_cache \<lparr>dxcc_cache = Map.empty, consecutive_dxcc_errors = 0, posted = []\<rparr> ''K1ABC'' = None \<and>
   (1800 :: real) - 0 < dxcc_cache_ttl \<and> dxcc_cache_ttl \<le> 3600 - 0 \<and>
   (let (r1, s1) = dxcc_lookup 0 ''K1ABC'' (Ok_body (17 :: nat))
                     \<lparr>dxcc_cache = Map.empty, consecutive_dxcc_errors = 0, posted = []\<rparr>;
        (r2, s2) = dxcc_lookup 1800 ''K1ABC'' Transport_failure s1;
        (r3, s3) = dxcc_lookup 3600 ''K1ABC'' (Ok_body 18) s2
    in r1 = Some 17 \<and> r2 = Some 17 \<and> r3 = Some 18 \<and> posted s2 = [''K1ABC''] \<and>
       posted s3 = [''K1ABC'', ''K1ABC'']) \<and>
   dxcc_cache (snd (dxcc_lookup 0 ''K1ABC'' (Ok_body (17 :: nat))
                     \<lparr>dxcc_cache = Map.empty, consecutive_dxcc_errors = 0, posted = []\<rparr>)) ''K1ABC''
     = Some \<lparr>cached_v = 17, cached_t = 0\<rparr> \<and>
   (1800 :: real) - cached_t \<lparr>cached_v = 17 :: nat, cached_t = 0\<rparr> < dxcc_cache_ttl \<and>
   dxcc_lookup 1800 ''K1ABC'' Transport_failure
     (snd (dxcc_lookup 0 ''K1ABC'' (Ok_body (17 :: nat))
                     \<lparr>dxcc_cache = Map.empty, consecutive_dxcc_errors = 0, posted = []\<rparr>))
     = (Some 17, snd (dxcc_lookup 0 ''K1ABC'' (Ok_body (17 :: nat))
                     \<lparr>dxcc_cache = Map.empty, consecutive_dxcc_errors = 0, posted = []\<rparr>))"
  using dxcc_lookup_ttl [of "\<lparr>dxcc_cache = Map.empty, consecutive_dxcc_errors = 0, posted = []\<rparr>"
      "''K1ABC''" 0 Transport_failure 0 1800 3600 "17 :: nat" Transport_failure "Ok_body 18"]
  by (simp add: dxcc_lookup_def dxcc_request_def dxcc_cache_ttl_def)

section \<open>Timestamp reconstructor: properties\<close>

lemma of_char_digit_char: "n < 10 \<Longrightarrow> of_char (digit_char n) = 48 + n"
  by (simp add: digit_char_def)

lemma digit_char_props:
  assumes "n < 10"
  shows "is_digit (digit_char n)" "digit_val (digit_char n) = n" "\<not> is_space (digit_char n)"
    "\<not> is_numeric_space (digit_char n)"
    "digit_char n \<noteq> CHR ''Z''" "digit_char n \<noteq> CHR ''-''" "digit_char n \<noteq> CHR ''+''"
    "digit_char n \<noteq> CHR ''_''"
proof -
  have oc: "of_char (digit_char n) = 48 + n" using assms by (rule of_char_digit_char)
  show "is_digit (digit_char n)" using assms by (simp add: is_digit_def oc)
  show "digit_val (digit_char n) = n" by (simp add: digit_val_def oc)
  show "\<not> is_space (digit_char n)" using assms by (simp add: is_space_def oc)
  show "\<not> is_numeric_space (digit_char n)" using assms by (simp add: is_numeric_space_def oc)
  have "of_char (digit_char n) \<noteq> (of_char (CHR ''Z'') :: nat)" using assms by (simp add: oc)
  then show "digit_char n \<noteq> CHR ''Z''" by metis
  have "of_char (digit_char n) \<noteq> (of_char (CHR ''-'') :: nat)" using assms by (simp add: oc)
  then show "digit_char n \<noteq> CHR ''-''" by metis
  have "of_char (digit_char n) \<noteq> (of_char (CHR ''+'') :: nat)" using assms by (simp add: oc)
  then show "digit_char n \<noteq> CHR ''+''" by metis
  have "of_char (digit_char n) \<noteq> (of_char (CHR ''_'') :: nat)" using assms by (simp add: oc)
  then show "digit_char n \<noteq> CHR ''_''" by metis
qed

lemma py_int_str_one_digit:
  "a < 10 \<Longrightarrow> py_int_str [digit_char a] = Inr (int a)"
  by (simp add: py_int_str_def numeric_strip_def split_sign_def digitpart_def
      digitpart_val_def digits_val_def digit_char_props)

lemma py_int_str_two_digits:
  "a < 10 \<Longrightarrow> b < 10 \<Longrightarrow> py_int_str [digit_char a, digit_char b] = Inr (int (10 * a + b))"
  by (simp add: py_int_str_def numeric_strip_def split_sign_def digitpart_def
      digitpart_val_def digits_val_def digit_char_props)

lemma rstrip_Z_hhmm:
  "hh < 100 \<Longrightarrow> mm < 100 \<Longrightarrow> rstrip_Z (hhmm_literal hh mm) =
     [digit_char (hh div 10), digit_char (hh mod 10), digit_char (mm div 10), digit_char (mm mod 10)]"
  by (simp add: rstrip_Z_def hhmm_literal_def digit_char_props)

lemma datetime_sub_same_day:
  "datetime_sub (now\<lparr>hour := hh, minute := mm\<rparr>) now =
     ((int hh * 60 + int mm) - (int (hour now) * 60 + int (minute now))) * 60000000"
  by (simp add: datetime_sub_def toordinal_def algebra_simps)

lemma datetime_new_overlay:
  "valid_datetime now \<Longrightarrow> hh \<le> 23 \<Longrightarrow> mm \<le> 59 \<Longrightarrow>
   datetime_new (year now) (month now) (day now) (int hh) (int mm) (second now) (microsecond now)
     = Inr (now\<lparr>hour := hh, minute := mm\<rparr>)"
  by (simp add: datetime_new_def valid_datetime_def)

lemma parse_z_time_hhmm:
  assumes "valid_datetime now" "hh \<le> 23" "mm \<le> 59"
  shows "parse_z_time now (hhmm_literal hh mm) =
    (if 720 < (int hh * 60 + int mm) - (int (hour now) * 60 + int (minute now))
     then sub_one_day (now\<lparr>hour := hh, minute := mm\<rparr>)
     else Inr (now\<lparr>hour := hh, minute := mm\<rparr>))"
proof -
  have d: "hh div 10 < 10" "hh mod 10 < 10" "mm div 10 < 10" "mm mod 10 < 10"
    using assms by simp_all
  have hv: "py_int_str [digit_char (hh div 10), digit_char (hh mod 10)] = Inr (int hh)"
    using py_int_str_two_digits [OF d(1) d(2)] by simp
  have mv: "py_int_str [digit_char (mm div 10), digit_char (mm mod 10)] = Inr (int mm)"
    using py_int_str_two_digits [OF d(3) d(4)] by simp
  have t: "rstrip_Z (hhmm_literal hh mm) =
     [digit_char (hh div 10), digit_char (hh mod 10), digit_char (mm div 10), digit_char (mm mod 10)]"
    using assms by (simp add: rstrip_Z_hhmm)
  show ?thesis
    by (simp add: parse_z_time_def t hv mv datetime_new_overlay [OF assms] datetime_sub_same_day
        timedelta_hours_def)
qed




lemma upt_1_12: "[Suc 0..<12] = [1, 2, 3, 4, 5, 6, 7, 8, 9, 10, 11 :: nat]"
  by code_simp

lemma days_before_month_12: "days_before_month y 12 + 31 = (if is_leap y then 366 else 365)"
  by (simp add: days_before_month_def upt_1_12 days_in_month_def)

lemma mod_facts: "(n :: nat) mod 100 = 0 \<Longrightarrow> n mod 4 = 0" "(n :: nat) mod 400 = 0 \<Longrightarrow> n mod 100 = 0"
  by presburger+

lemma div_le_facts: "(k :: nat) div 100 \<le> k div 4" 
  by (simp add: div_le_mono2)

lemma days_before_year_Suc:
  assumes "1 \<le> n"
  shows "days_before_year (Suc n) = days_before_year n + (if is_leap n then 366 else 365)"
proof -
  obtain k where k: "n = Suc k" using assms by (cases n) auto
  define A B C where "A = k div 4" and "B = k div 100" and "C = k div 400"
  define p4 p100 p400 where "p4 = (Suc k mod 4 = 0)" and "p100 = (Suc k mod 100 = 0)"
    and "p400 = (Suc k mod 400 = 0)"
  have a: "Suc k div 4 = A + (if p4 then 1 else 0)"
    "Suc k div 100 = B + (if p100 then 1 else 0)"
    "Suc k div 400 = C + (if p400 then 1 else 0)"
    by (simp_all add: div_Suc A_def B_def C_def p4_def p100_def p400_def)
  have le: "B \<le> A" unfolding A_def B_def by (rule div_le_facts)
  have imp: "p100 \<Longrightarrow> p4" "p400 \<Longrightarrow> p100"
    unfolding p4_def p100_def p400_def by (rule mod_facts(1), assumption) (rule mod_facts(2), assumption)
  have l: "is_leap n = (p4 \<and> (\<not> p100 \<or> p400))"
    by (simp add: is_leap_def k p4_def p100_def p400_def)
  have y1: "days_before_year (Suc n) = Suc k * 365 + (A + (if p4 then 1 else 0))
      - (B + (if p100 then 1 else 0)) + (C + (if p400 then 1 else 0))"
    unfolding days_before_year_def k using a by simp
  have y0: "days_before_year n = k * 365 + A - B + C"
    unfolding days_before_year_def k by (simp add: A_def B_def C_def)
  show ?thesis
    unfolding y1 y0 l using le imp
    by (cases p4; cases p100; cases p400) simp_all
qed


lemma days_before_month_Suc:
  "1 \<le> m \<Longrightarrow> days_before_month y (Suc m) = days_before_month y m + days_in_month y m"
  by (simp add: days_before_month_def)

lemma sub_one_day_ordinal:
  assumes "valid_datetime d" "sub_one_day d = Inr w"
  shows "toordinal w + 1 = toordinal d \<and> hour w = hour d \<and> minute w = minute d \<and>
         second w = second d \<and> microsecond w = microsecond d \<and> valid_datetime w"
proof (cases "1 < day d")
  case True
  with assms show ?thesis
    by (auto simp: sub_one_day_def toordinal_def valid_datetime_def)
next
  case False
  with assms have d1: "day d = 1" by (simp add: valid_datetime_def)
  show ?thesis
  proof (cases "1 < month d")
    case True
    then obtain m where m: "month d = Suc m" "1 \<le> m" by (cases "month d") auto
    have w: "w = d\<lparr>month := m, day := days_in_month (year d) m\<rparr>"
      using assms(2) d1 True m by (simp add: sub_one_day_def)
    have "1 \<le> days_in_month (year d) m" by (simp add: days_in_month_def)
    then show ?thesis
      using assms(1) d1 m by (simp add: w toordinal_def days_before_month_Suc valid_datetime_def)
  next
    case False
    with assms have m1: "month d = 1" by (simp add: valid_datetime_def)
    from assms d1 m1 have y: "1 < year d" by (simp add: sub_one_day_def split: if_splits)
    then obtain n where n: "year d = Suc n" "1 \<le> n" by (cases "year d") auto
    have w: "w = d\<lparr>year := n, month := 12, day := 31\<rparr>"
      using assms(2) d1 m1 y n by (simp add: sub_one_day_def)
    have "days_before_month (Suc n) 1 = 0" by (simp add: days_before_month_def)
    then show ?thesis
      using assms(1) d1 m1 n days_before_month_12 [of n]
      by (simp add: w toordinal_def days_before_year_Suc valid_datetime_def days_in_month_def)
  qed
qed



lemma rstrip_Z_hmm:
  "hh < 10 \<Longrightarrow> mm < 100 \<Longrightarrow> rstrip_Z (hmm_literal hh mm) =
     [digit_char hh, digit_char (mm div 10), digit_char (mm mod 10)]"
  by (simp add: rstrip_Z_def hmm_literal_def digit_char_props)

lemma parse_z_time_hmm:
  assumes "valid_datetime now" "hh \<le> 9" "mm \<le> 59"
  shows "parse_z_time now (hmm_literal hh mm) =
    (if 720 < (int hh * 60 + int mm) - (int (hour now) * 60 + int (minute now))
     then sub_one_day (now\<lparr>hour := hh, minute := mm\<rparr>)
     else Inr (now\<lparr>hour := hh, minute := mm\<rparr>))"
proof -
  have d: "hh < 10" "mm div 10 < 10" "mm mod 10 < 10"
    using assms by simp_all
  have h23: "hh \<le> 23" using assms by simp
  have hv: "py_int_str [digit_char hh] = Inr (int hh)"
    using py_int_str_one_digit [OF d(1)] by simp
  have mv: "py_int_str [digit_char (mm div 10), digit_char (mm mod 10)] = Inr (int mm)"
    using py_int_str_two_digits [OF d(2) d(3)] by simp
  have t: "rstrip_Z (hmm_literal hh mm) = [digit_char hh, digit_char (mm div 10), digit_char (mm mod 10)]"
    using assms by (simp add: rstrip_Z_hmm)
  show ?thesis
    by (simp add: parse_z_time_def t hv mv datetime_new_overlay [OF assms(1) h23 assms(3)]
        datetime_sub_same_day timedelta_hours_def)
qed

lemma parse_z_time_out_of_range:
  assumes "hh < 100" "mm < 100" "23 < hh \<or> 59 < mm"
  shows "parse_z_time now (hhmm_literal hh mm) = Inl ValueError"
proof -
  have d: "hh div 10 < 10" "hh mod 10 < 10" "mm div 10 < 10" "mm mod 10 < 10"
    using assms by simp_all
  have hv: "py_int_str [digit_char (hh div 10), digit_char (hh mod 10)] = Inr (int hh)"
    using py_int_str_two_digits [OF d(1) d(2)] by simp
  have mv: "py_int_str [digit_char (mm div 10), digit_char (mm mod 10)] = Inr (int mm)"
    using py_int_str_two_digits [OF d(3) d(4)] by simp
  have t: "rstrip_Z (hhmm_literal hh mm) =
     [digit_char (hh div 10), digit_char (hh mod 10), digit_char (mm div 10), digit_char (mm mod 10)]"
    using assms by (simp add: rstrip_Z_hhmm)
  have "datetime_new (year now) (month now) (day now) (int hh) (int mm) (second now) (microsecond now)
          = Inl ValueError"
    using assms(3) by (auto simp: datetime_new_def)
  then show ?thesis
    by (simp add: parse_z_time_def t hv mv)
qed

lemma parse_z_time_other_length:
  "length (rstrip_Z timestr) \<noteq> 3 \<Longrightarrow> length (rstrip_Z timestr) \<noteq> 4 \<Longrightarrow>
   parse_z_time now timestr = Inr now"
  by (simp add: parse_z_time_def)

lemma sub_one_day_total:
  "valid_datetime d \<Longrightarrow> (year d, month d, day d) \<noteq> (1, 1, 1) \<Longrightarrow> \<exists>w. sub_one_day d = Inr w"
  by (auto simp: sub_one_day_def valid_datetime_def)


lemma digit_char_numerals:
  "digit_char 0 = CHR ''0''" "digit_char 1 = CHR ''1''" "digit_char 2 = CHR ''2''"
  "digit_char 3 = CHR ''3''" "digit_char 4 = CHR ''4''" "digit_char 5 = CHR ''5''"
  "digit_char 6 = CHR ''6''" "digit_char 7 = CHR ''7''" "digit_char 8 = CHR ''8''"
  "digit_char 9 = CHR ''9''" "digit_char (Suc 0) = CHR ''1''"
  by code_simp+

lemmas datetime_defs = parse_z_time_def rstrip_Z_def datetime_new_def days_in_month_def is_leap_def
  datetime_sub_def toordinal_def timedelta_hours_def sub_one_day_def valid_datetime_def
  hhmm_literal_def hmm_literal_def digit_char_numerals


lemma twelve_hours: "(timedelta_hours 12 < X * 60000000) = (720 < X)" for X :: int
proof -
  have "(720 * 60000000 < X * 60000000) = (720 < X)" by (rule mult_less_cancel_right_pos) simp
  moreover have "timedelta_hours 12 = 720 * 60000000" by (simp add: timedelta_hours_def)
  ultimately show ?thesis by (simp only:)
qed

lemma twelve_hours_ahead:
  "(timedelta_hours 12 < datetime_sub (now\<lparr>hour := hh, minute := mm\<rparr>) now) =
      (720 < (int hh * 60 + int mm) - (int (hour now) * 60 + int (minute now)))"
  unfolding datetime_sub_same_day by (rule twelve_hours)

text \<open>
  C3: for a valid clock reading \<open>now\<close> and a literal \<open>HHMM\<close> (or \<open>HMM\<close>) with an hour up to
  23 and a minute up to 59, the reconstructor puts that hour and minute on the date, second
  and microsecond of \<open>now\<close>, and goes back one day exactly when the result is more than 12
  hours ahead of \<open>now\<close>, that is when it is more than 720 minutes ahead. Going back one
  day lowers the ordinal of the date by one and keeps the time of day. 2359Z read at 00:05
  on 12 November 2025 gives 23:59 on 11 November; 0005Z read at 00:10 gives 00:05 on the
  same day.
\<close>

theorem parse_z_time_day_rollover:
  "(valid_datetime now \<and> hh \<le> 23 \<and> mm \<le> 59 \<longrightarrow>
      parse_z_time now (hhmm_literal hh mm) =
        (if timedelta_hours 12 < datetime_sub (now\<lparr>hour := hh, minute := mm\<rparr>) now
         then sub_one_day (now\<lparr>hour := hh, minute := mm\<rparr>)
         else Inr (now\<lparr>hour := hh, minute := mm\<rparr>)) \<and>
      (hh \<le> 9 \<longrightarrow> parse_z_time now (hmm_literal hh mm) = parse_z_time now (hhmm_literal hh mm)) \<and>
      (timedelta_hours 12 < datetime_sub (now\<lparr>hour := hh, minute := mm\<rparr>) now \<longleftrightarrow>
         720 < (int hh * 60 + int mm) - (int (hour now) * 60 + int (minute now))) \<and>
      (\<forall>w. sub_one_day (now\<lparr>hour := hh, minute := mm\<rparr>) = Inr w \<longrightarrow>
         toordinal w + 1 = toordinal now \<and> hour w = hh \<and> minute w = mm \<and>
         second w = second now \<and> microsecond w = microsecond now)) \<and>
   parse_z_time \<lparr>year = 2025, month = 11, day = 12, hour = 0, minute = 5, second = 30, microsecond = 123456\<rparr> ''2359Z''
     = Inr \<lparr>year = 2025, month = 11, day = 11, hour = 23, minute = 59, second = 30, microsecond = 123456\<rparr> \<and>
   parse_z_time \<lparr>year = 2025, month = 11, day = 12, hour = 0, minute = 10, second = 30, microsecond = 123456\<rparr> ''0005Z''
     = Inr \<lparr>year = 2025, month = 11, day = 12, hour = 0, minute = 5, second = 30, microsecond = 123456\<rparr>"
proof (intro conjI impI allI)
  assume a: "valid_datetime now \<and> hh \<le> 23 \<and> mm \<le> 59"
  have sub: "(timedelta_hours 12 < datetime_sub (now\<lparr>hour := hh, minute := mm\<rparr>) now) =
      (720 < (int hh * 60 + int mm) - (int (hour now) * 60 + int (minute now)))"
    by (rule twelve_hours_ahead)
  show "(timedelta_hours 12 < datetime_sub (now\<lparr>hour := hh, minute := mm\<rparr>) now) =
      (720 < (int hh * 60 + int mm) - (int (hour now) * 60 + int (minute now)))"
    by (rule sub)
  show "parse_z_time now (hhmm_literal hh mm) =
        (if timedelta_hours 12 < datetime_sub (now\<lparr>hour := hh, minute := mm\<rparr>) now
         then sub_one_day (now\<lparr>hour := hh, minute := mm\<rparr>)
         else Inr (now\<lparr>hour := hh, minute := mm\<rparr>))"
    using a by (simp only: sub parse_z_time_hhmm)
  {
    assume "hh \<le> 9"
    with a show "parse_z_time now (hmm_literal hh mm) = parse_z_time now (hhmm_literal hh mm)"
      by (simp add: parse_z_time_hmm parse_z_time_hhmm)
  }
  fix w assume w: "sub_one_day (now\<lparr>hour := hh, minute := mm\<rparr>) = Inr w"
  have v: "valid_datetime (now\<lparr>hour := hh, minute := mm\<rparr>)"
    using a by (simp add: valid_datetime_def)
  have o: "toordinal (now\<lparr>hour := hh, minute := mm\<rparr>) = toordinal now"
    by (simp add: toordinal_def)
  from sub_one_day_ordinal [OF v w] o
  show "toordinal w + 1 = toordinal now" "hour w = hh" "minute w = mm"
    "second w = second now" "microsecond w = microsecond now"
    by simp_all
next
  show "parse_z_time \<lparr>year = 2025, month = 11, day = 12, hour = 0, minute = 5, second = 30, microsecond = 123456\<rparr> ''2359Z''
     = Inr \<lparr>year = 2025, month = 11, day = 11, hour = 23, minute = 59, second = 30, microsecond = 123456\<rparr>"
    by (simp add: datetime_defs literal_defs)
next
  show "parse_z_time \<lparr>year = 2025, month = 11, day = 12, hour = 0, minute = 10, second = 30, microsecond = 123456\<rparr> ''0005Z''
     = Inr \<lparr>year = 2025, month = 11, day = 12, hour = 0, minute = 5, second = 30, microsecond = 123456\<rparr>"
    by (simp add: datetime_defs literal_defs)
qed

text \<open>
  The statement of C3 at 00:05:30 on 12 November 2025 with the literal 2359Z, which is
  1434 minutes ahead, and at 00:10:30 with 0005Z, which is behind.
\<close>

theorem parse_z_time_day_rollover_witness:
  "valid_datetime \<lparr>year = 2025, month = 11, day = 12, hour = 0, minute = 5, second = 30, microsecond = 123456\<rparr> \<and>
   (23 :: nat) \<le> 23 \<and> (59 :: nat) \<le> 59 \<and>
   timedelta_hours 12 < datetime_sub
     \<lparr>year = 2025, month = 11, day = 12, hour = 23, minute = 59, second = 30, microsecond = 123456\<rparr>
     \<lparr>year = 2025, month = 11, day = 12, hour = 0, minute = 5, second = 30, microsecond = 123456\<rparr> \<and>
   parse_z_time \<lparr>year = 2025, month = 11, day = 12, hour = 0, minute = 5, second = 30, microsecond = 123456\<rparr>
       (hhmm_literal 23 59)
     = Inr \<lparr>year = 2025, month = 11, day = 11, hour = 23, minute = 59, second = 30, microsecond = 123456\<rparr> \<and>
   sub_one_day \<lparr>year = 2025, month = 11, day = 12, hour = 23, minute = 59, second = 30, microsecond = 123456\<rparr>
     = Inr \<lparr>year = 2025, month = 11, day = 11, hour = 23, minute = 59, second = 30, microsecond = 123456\<rparr> \<and>
   toordinal \<lparr>year = 2025, month = 11, day = 11, hour = 23, minute = 59, second = 30, microsecond = 123456\<rparr> + 1
     = toordinal \<lparr>year = 2025, month = 11, day = 12, hour = 0, minute = 5, second = 30, microsecond = 123456\<rparr> \<and>
   (5 :: nat) \<le> 9 \<and>
   parse_z_time \<lparr>year = 2025, month = 11, day = 12, hour = 0, minute = 10, second = 30, microsecond = 123456\<rparr>
       (hmm_literal 5 7)
     = Inr \<lparr>year = 2025, month = 11, day = 12, hour = 5, minute = 7, second = 30, microsecond = 123456\<rparr>"
  using parse_z_time_day_rollover
    [of "\<lparr>year = 2025, month = 11, day = 12, hour = 0, minute = 5, second = 30, microsecond = 123456\<rparr>" 23 59]
  by (simp add: datetime_defs literal_defs)


text \<open>
  C4, as stated, fails: the literal 2460Z has four characters after stripping, the minute
  60 is passed to the \<open>datetime\<close> constructor, and the constructor raises ValueError.
\<close>

theorem parse_z_time_raises_counterexample:
  "parse_z_time \<lparr>year = 2025, month = 11, day = 12, hour = 0, minute = 10, second = 30, microsecond = 123456\<rparr> ''2460Z''
     = Inl ValueError"
  by (simp add: datetime_defs literal_defs)

lemma parse_z_time_hmm_out_of_range:
  assumes "hh \<le> 9" "mm < 100" "59 < mm"
  shows "parse_z_time now (hmm_literal hh mm) = Inl ValueError"
proof -
  have d: "hh < 10" "mm div 10 < 10" "mm mod 10 < 10"
    using assms by simp_all
  have hv: "py_int_str [digit_char hh] = Inr (int hh)"
    using py_int_str_one_digit [OF d(1)] by simp
  have mv: "py_int_str [digit_char (mm div 10), digit_char (mm mod 10)] = Inr (int mm)"
    using py_int_str_two_digits [OF d(2) d(3)] by simp
  have t: "rstrip_Z (hmm_literal hh mm) = [digit_char hh, digit_char (mm div 10), digit_char (mm mod 10)]"
    using assms by (simp add: rstrip_Z_hmm)
  have "datetime_new (year now) (month now) (day now) (int hh) (int mm) (second now) (microsecond now)
          = Inl ValueError"
    using assms(3) by (auto simp: datetime_new_def)
  then show ?thesis
    by (simp add: parse_z_time_def t hv mv)
qed

text \<open>
  C4, amended: whenever the literal, after stripping the trailing Z, is not exactly 3 or 4
  characters long, the reconstructor returns \<open>now\<close> unchanged and raises nothing. For a
  literal of 3 or 4 characters it is not total. When the characters are decimal digits,
  \<open>HHMM\<close> or \<open>HMM\<close>, with an hour up to 23 and a minute up to 59, it returns a timestamp,
  provided \<open>now\<close> is a valid clock reading that is not on 1 January of year 1 (from where
  no day can be subtracted). When they are decimal digits with an hour above 23 or a
  minute above 59, it raises ValueError, whatever \<open>now\<close> is.
\<close>

theorem parse_z_time_fallback_and_errors:
  "(length (rstrip_Z timestr) \<noteq> 3 \<and> length (rstrip_Z timestr) \<noteq> 4 \<longrightarrow>
      parse_z_time now timestr = Inr now) \<and>
   (valid_datetime now \<and> (year now, month now, day now) \<noteq> (1, 1, 1) \<and> hh \<le> 23 \<and> mm \<le> 59 \<longrightarrow>
      (\<exists>w. parse_z_time now (hhmm_literal hh mm) = Inr w)) \<and>
   (valid_datetime now \<and> (year now, month now, day now) \<noteq> (1, 1, 1) \<and> hh \<le> 9 \<and> mm \<le> 59 \<longrightarrow>
      (\<exists>w. parse_z_time now (hmm_literal hh mm) = Inr w)) \<and>
   (hh < 100 \<and> mm < 100 \<and> (23 < hh \<or> 59 < mm) \<longrightarrow>
      parse_z_time now (hhmm_literal hh mm) = Inl ValueError) \<and>
   (hh \<le> 9 \<and> mm < 100 \<and> 59 < mm \<longrightarrow>
      parse_z_time now (hmm_literal hh mm) = Inl ValueError)"
proof (intro conjI impI)
  assume "length (rstrip_Z timestr) \<noteq> 3 \<and> length (rstrip_Z timestr) \<noteq> 4"
  then show "parse_z_time now timestr = Inr now"
    by (simp add: parse_z_time_other_length)
next
  assume a: "valid_datetime now \<and> (year now, month now, day now) \<noteq> (1, 1, 1) \<and> hh \<le> 23 \<and> mm \<le> 59"
  have v: "valid_datetime (now\<lparr>hour := hh, minute := mm\<rparr>)"
    using a by (simp add: valid_datetime_def)
  have "\<exists>w. sub_one_day (now\<lparr>hour := hh, minute := mm\<rparr>) = Inr w"
    using a by (intro sub_one_day_total [OF v]) simp
  then show "\<exists>w. parse_z_time now (hhmm_literal hh mm) = Inr w"
    using a by (simp add: parse_z_time_hhmm)
next
  assume a: "valid_datetime now \<and> (year now, month now, day now) \<noteq> (1, 1, 1) \<and> hh \<le> 9 \<and> mm \<le> 59"
  have v: "valid_datetime (now\<lparr>hour := hh, minute := mm\<rparr>)"
    using a by (simp add: valid_datetime_def)
  have "\<exists>w. sub_one_day (now\<lparr>hour := hh, minute := mm\<rparr>) = Inr w"
    using a by (intro sub_one_day_total [OF v]) simp
  then show "\<exists>w. parse_z_time now (hmm_literal hh mm) = Inr w"
    using a by (simp add: parse_z_time_hmm)
next
  assume "hh < 100 \<and> mm < 100 \<and> (23 < hh \<or> 59 < mm)"
  then show "parse_z_time now (hhmm_literal hh mm) = Inl ValueError"
    by (simp add: parse_z_time_out_of_range)
next
  assume "hh \<le> 9 \<and> mm < 100 \<and> 59 < mm"
  then show "parse_z_time now (hmm_literal hh mm) = Inl ValueError"
    by (simp add: parse_z_time_hmm_out_of_range)
qed

text \<open>
  The amended statement of C4 on the literals 12Z (two characters), 1822Z, 959Z, 2460Z and
  960Z, at 00:10:30 on 12 November 2025.
\<close>

theorem parse_z_time_fallback_and_errors_witness:
  "length (rstrip_Z ''12Z'') \<noteq> 3 \<and> length (rstrip_Z ''12Z'') \<noteq> 4 \<and>
   parse_z_time \<lparr>year = 2025, month = 11, day = 12, hour = 0, minute = 10, second = 30, microsecond = 123456\<rparr> ''12Z''
     = Inr \<lparr>year = 2025, month = 11, day = 12, hour = 0, minute = 10, second = 30, microsecond = 123456\<rparr> \<and>
   valid_datetime \<lparr>year = 2025, month = 11, day = 12, hour = 0, minute = 10, second = 30, microsecond = 123456\<rparr> \<and>
   (2025 :: nat, 11 :: nat, 12 :: nat) \<noteq> (1, 1, 1) \<and> (18 :: nat) \<le> 23 \<and> (22 :: nat) \<le> 59 \<and>
   hhmm_literal 18 22 = ''1822Z'' \<and>
   parse_z_time \<lparr>year = 2025, month = 11, day = 12, hour = 0, minute = 10, second = 30, microsecond = 123456\<rparr>
       ''1822Z''
     = Inr \<lparr>year = 2025, month = 11, day = 11, hour = 18, minute = 22, second = 30, microsecond = 123456\<rparr> \<and>
   (9 :: nat) \<le> 9 \<and> (59 :: nat) \<le> 59 \<and> hmm_literal 9 59 = ''959Z'' \<and>
   parse_z_time \<lparr>year = 2025, month = 11, day = 12, hour = 0, minute = 10, second = 30, microsecond = 123456\<rparr>
       ''959Z''
     = Inr \<lparr>year = 2025, month = 11, day = 12, hour = 9, minute = 59, second = 30, microsecond = 123456\<rparr> \<and>
   (24 :: nat) < 100 \<and> (60 :: nat) < 100 \<and> (23 :: nat) < 24 \<and> hhmm_literal 24 60 = ''2460Z'' \<and>
   parse_z_time \<lparr>year = 2025, month = 11, day = 12, hour = 0, minute = 10, second = 30, microsecond = 123456\<rparr>
       ''2460Z''
     = Inl ValueError \<and>
   (59 :: nat) < 60 \<and> hmm_literal 9 60 = ''960Z'' \<and>
   parse_z_time \<lparr>year = 2025, month = 11, day = 12, hour = 0, minute = 10, second = 30, microsecond = 123456\<rparr>
       ''960Z''
     = Inl ValueError"
  using parse_z_time_fallback_and_errors
    [of "''12Z''" "\<lparr>year = 2025, month = 11, day = 12, hour = 0, minute = 10, second = 30, microsecond = 123456\<rparr>" 9 60]
  by (simp add: datetime_defs literal_defs)

section \<open>Line parser: properties\<close>

lemma zpad_2: "zpad 2 n = [digit_char (n div 10 mod 10), digit_char (n mod 10)]"
proof -
  have "zpad 2 n = zpad (Suc (Suc 0)) n" by (simp only: numeral_2_eq_2)
  then show ?thesis by simp
qed

lemma zpad_3: "zpad 3 n = [digit_char (n div 100 mod 10), digit_char (n div 10 mod 10), digit_char (n mod 10)]"
proof -
  have "zpad 3 n = zpad (Suc (Suc (Suc 0))) n" by (simp only: numeral_3_eq_3)
  then show ?thesis by (simp add: div_mult2_eq [symmetric])
qed

lemma zpad_4: "zpad 4 n = [digit_char (n div 1000 mod 10), digit_char (n div 100 mod 10),
    digit_char (n div 10 mod 10), digit_char (n mod 10)]"
proof -
  have "(4 :: nat) = Suc (Suc (Suc (Suc 0)))" by simp
  then have "zpad 4 n = zpad (Suc (Suc (Suc (Suc 0)))) n" by (simp only:)
  then show ?thesis by (simp add: div_mult2_eq [symmetric])
qed

lemma zpad_6: "zpad 6 n = [digit_char (n div 100000 mod 10), digit_char (n div 10000 mod 10),
    digit_char (n div 1000 mod 10), digit_char (n div 100 mod 10), digit_char (n div 10 mod 10),
    digit_char (n mod 10)]"
proof -
  have "(6 :: nat) = Suc (Suc (Suc (Suc (Suc (Suc 0)))))" by simp
  then have "zpad 6 n = zpad (Suc (Suc (Suc (Suc (Suc (Suc 0)))))) n" by (simp only:)
  then show ?thesis by (simp add: div_mult2_eq [symmetric])
qed

lemmas re_defs = re_match_def re_search_def group_def group_str_def Plus_def LazyPlus_def Opt_def
  Word_def Seqs_def ws_def nonws_def dig_def alpha_def anychar_def freq_re_def TELNET_RE_def
  SHDX_RE_def is_upper_def is_lower_def

lemmas spot_defs = parse_line_def relay_spot_def bulk_spot_def py_int_float_def py_str_int_def
  digits_of.simps isoformat_def isoformat_milliseconds_def iso_seconds_def replace.simps
  detect_source_from_message_def strptime_def month_abbr_def qrg2band_khz_def band_of_float_def
  zpad_2 zpad_3 zpad_4 zpad_6 char_of_def bit_Suc_0_iff

lemma contains_iff: "contains sub s \<longleftrightarrow> (\<exists>pre post. s = pre @ sub @ post)"
proof (induction s)
  case Nil
  then show ?case by auto
next
  case (Cons c cs)
  have "(\<exists>pre post. c # cs = pre @ sub @ post) \<longleftrightarrow>
        (\<exists>post. c # cs = sub @ post) \<or> (\<exists>pre post. cs = pre @ sub @ post)"
  proof
    assume "\<exists>pre post. c # cs = pre @ sub @ post"
    then obtain pre post where e: "c # cs = pre @ sub @ post" by blast
    show "(\<exists>post. c # cs = sub @ post) \<or> (\<exists>pre post. cs = pre @ sub @ post)"
    proof (cases pre)
      case Nil
      with e show ?thesis by auto
    next
      case (Cons p ps)
      with e have "cs = ps @ sub @ post" by simp
      then show ?thesis by blast
    qed
  next
    assume "(\<exists>post. c # cs = sub @ post) \<or> (\<exists>pre post. cs = pre @ sub @ post)"
    then show "\<exists>pre post. c # cs = pre @ sub @ post"
    proof
      assume "\<exists>post. c # cs = sub @ post"
      then obtain post where "c # cs = [] @ sub @ post" by auto
      then show ?thesis by blast
    next
      assume "\<exists>pre post. cs = pre @ sub @ post"
      then obtain pre post where "cs = pre @ sub @ post" by blast
      then have "c # cs = (c # pre) @ sub @ post" by simp
      then show ?thesis by blast
    qed
  qed
  moreover have "(take (length sub) (c # cs) = sub) \<longleftrightarrow> (\<exists>post. c # cs = sub @ post)"
  proof
    assume "take (length sub) (c # cs) = sub"
    then have "c # cs = sub @ drop (length sub) (c # cs)"
      by (metis append_take_drop_id)
    then show "\<exists>post. c # cs = sub @ post" by blast
  next
    assume "\<exists>post. c # cs = sub @ post"
    then obtain post where "c # cs = sub @ post" by blast
    then show "take (length sub) (c # cs) = sub" by simp
  qed
  ultimately show ?case using Cons.IH by simp
qed

lemma relay_spot_fields:
  assumes "relay_spot now g = Inr sp"
  shows "source sp = detect_source_from_message (message sp)"
    and "message sp = strip (group_str g ''rest'')"
    and "spotter sp = group_str g ''spotter''" and "spotted sp = group_str g ''spotted''"
    and "band sp = qrg2band_khz (PStr (group_str g ''freq''))"
    and "\<exists>f n. py_float_str (group_str g ''freq'') = Inr f \<and> py_int_float f = Inr n \<and>
           frequency sp = PStr (py_str_int n)"
  using assms by (auto simp: relay_spot_def Let_def split: sum.splits)

lemma parse_line_relay:
  assumes "parse_line now line = Relay_spot sp"
  shows "\<exists>g. re_search TELNET_RE (strip line) = Some g \<and> relay_spot now g = Inr sp"
  using assms by (auto simp: parse_line_def Let_def split: if_splits option.splits sum.splits)

lemma bulk_spot_fields:
  assumes "bulk_spot now g = Inr sp"
  shows "source sp = ''cluster''"
    and "spotter sp = group_str g ''spotter''" and "spotted sp = group_str g ''spotted''"
    and "group g ''via'' = None \<Longrightarrow> message sp = strip (group_str g ''message'')"
    and "\<And>via. group g ''via'' = Some via \<Longrightarrow> via \<noteq> [] \<Longrightarrow>
           message sp = strip (group_str g ''message'') @ '' via '' @ via"
    and "\<exists>f n. py_float_str (group_str g ''freq'') = Inr f \<and> py_int_float f = Inr n \<and>
           frequency sp = PInt n"
  using assms by (auto simp: bulk_spot_def Let_def split: sum.splits)

lemma parse_line_bulk:
  assumes "parse_line now line = Bulk_spot sp"
  shows "\<exists>g. re_search TELNET_RE (strip line) = None \<and> re_match SHDX_RE (strip line) = Some g \<and>
             bulk_spot now g = Inr sp"
  using assms by (auto simp: parse_line_def Let_def split: if_splits option.splits sum.splits)

text \<open>
  C6, as stated, fails on the rounding: for the relay line with frequency 14074.9 the code
  stores the frequency 14074, since \<open>int\<close> of a float truncates, where rounding gives 14075.
\<close>

theorem relay_frequency_rounding_counterexample:
  "parse_line \<lparr>year = 2025, month = 11, day = 12, hour = 18, minute = 30, second = 30, microsecond = 123456\<rparr>
    ''DX de K1ABC: 14074.9 DL1XYZ FT8 CQ DX 1822Z'' =
   Relay_spot \<lparr>spotter = ''K1ABC'', spotted = ''DL1XYZ'', frequency = PStr ''14074'', message = ''FT8 CQ DX'',
     when = ''2025-11-12T18:22:30.123456Z'', source = ''cq'', band = ''20m''\<rparr> \<and>
   spec_rounded_frequency ''14074.9'' = Inr ''14075''"
  by (simp add: spot_defs re_defs datetime_defs literal_defs spec_rounded_frequency_def round_def)

text \<open>
  C6, amended: parsing the relay line \<open>DX de K1ABC: 14074.0 DL1XYZ FT8 CQ DX 1822Z\<close>
  gives spotter K1ABC, spotted DL1XYZ, frequency "14074", source "cq" and band "20m". For
  every line that yields a relay spot, spotter, spotted and message are the groups of the
  pattern (the message stripped), the frequency is the frequency text parsed as a float,
  truncated towards zero and written as a string, the band is derived from the frequency
  text, and the source is "pota" when the lower-cased message contains "pota", else "cq"
  when it contains "cq", else "cluster"; two messages that differ only in case get the same
  source.
\<close>

theorem relay_line_parsing:
  "parse_line \<lparr>year = 2025, month = 11, day = 12, hour = 18, minute = 30, second = 30, microsecond = 123456\<rparr>
    ''DX de K1ABC: 14074.0 DL1XYZ FT8 CQ DX 1822Z'' =
   Relay_spot \<lparr>spotter = ''K1ABC'', spotted = ''DL1XYZ'', frequency = PStr ''14074'', message = ''FT8 CQ DX'',
     when = ''2025-11-12T18:22:30.123456Z'', source = ''cq'', band = ''20m''\<rparr> \<and>
   (\<forall>now line sp. parse_line now line = Relay_spot sp \<longrightarrow>
      (\<exists>g x. re_search TELNET_RE (strip line) = Some g \<and>
         spotter sp = group_str g ''spotter'' \<and> spotted sp = group_str g ''spotted'' \<and>
         message sp = strip (group_str g ''rest'') \<and>
         py_float_str (group_str g ''freq'') = Inr (Finite x) \<and>
         frequency sp = PStr (py_str_int (if 0 \<le> x then \<lfloor>x\<rfloor> else \<lceil>x\<rceil>)) \<and>
         band sp = qrg2band_khz (PStr (group_str g ''freq''))) \<and>
      source sp =
        (if \<exists>pre post. lower (message sp) = pre @ ''pota'' @ post then ''pota''
         else if \<exists>pre post. lower (message sp) = pre @ ''cq'' @ post then ''cq''
         else ''cluster'')) \<and>
   (\<forall>a b. lower a = lower b \<longrightarrow> detect_source_from_message a = detect_source_from_message b) \<and>
   detect_source_from_message ''CQ Pota K-1234'' = ''pota'' \<and>
   detect_source_from_message ''FT8 -12dB'' = ''cluster''"
proof (intro conjI allI impI)
  show "parse_line \<lparr>year = 2025, month = 11, day = 12, hour = 18, minute = 30, second = 30, microsecond = 123456\<rparr>
    ''DX de K1ABC: 14074.0 DL1XYZ FT8 CQ DX 1822Z'' =
   Relay_spot \<lparr>spotter = ''K1ABC'', spotted = ''DL1XYZ'', frequency = PStr ''14074'', message = ''FT8 CQ DX'',
     when = ''2025-11-12T18:22:30.123456Z'', source = ''cq'', band = ''20m''\<rparr>"
    by (simp add: spot_defs re_defs datetime_defs literal_defs)
next
  fix now line sp
  assume a: "parse_line now line = Relay_spot sp"
  from parse_line_relay [OF a] obtain g where
    g: "re_search TELNET_RE (strip line) = Some g" and r: "relay_spot now g = Inr sp" by blast
  from relay_spot_fields(6) [OF r] obtain f n where
    f: "py_float_str (group_str g ''freq'') = Inr f" and n: "py_int_float f = Inr n"
    and fr: "frequency sp = PStr (py_str_int n)" by blast
  from n obtain x where x: "f = Finite x" "n = (if 0 \<le> x then \<lfloor>x\<rfloor> else \<lceil>x\<rceil>)"
    by (cases f) (auto simp: py_int_float_def)
  show "\<exists>g x. re_search TELNET_RE (strip line) = Some g \<and>
         spotter sp = group_str g ''spotter'' \<and> spotted sp = group_str g ''spotted'' \<and>
         message sp = strip (group_str g ''rest'') \<and>
         py_float_str (group_str g ''freq'') = Inr (Finite x) \<and>
         frequency sp = PStr (py_str_int (if 0 \<le> x then \<lfloor>x\<rfloor> else \<lceil>x\<rceil>)) \<and>
         band sp = qrg2band_khz (PStr (group_str g ''freq''))"
    using g relay_spot_fields(2-5) [OF r] f fr x by blast
  show "source sp =
        (if \<exists>pre post. lower (message sp) = pre @ ''pota'' @ post then ''pota''
         else if \<exists>pre post. lower (message sp) = pre @ ''cq'' @ post then ''cq''
         else ''cluster'')"
    unfolding relay_spot_fields(1) [OF r] detect_source_from_message_def Let_def contains_iff ..
next
  fix a b assume "lower a = lower b"
  then show "detect_source_from_message a = detect_source_from_message b"
    by (simp add: detect_source_from_message_def)
next
  show "detect_source_from_message ''CQ Pota K-1234'' = ''pota''"
    by (simp add: detect_source_from_message_def lower_def lower_char_def char_of_def bit_Suc_0_iff)
next
  show "detect_source_from_message ''FT8 -12dB'' = ''cluster''"
    by (simp add: detect_source_from_message_def lower_def lower_char_def char_of_def bit_Suc_0_iff)
qed

text \<open>The amended statement of C6 on the line of the claim, read at 18:30:30.123456 on 12 November 2025.\<close>

theorem relay_line_parsing_witness:
  "parse_line \<lparr>year = 2025, month = 11, day = 12, hour = 18, minute = 30, second = 30, microsecond = 123456\<rparr>
    ''DX de K1ABC: 14074.0 DL1XYZ FT8 CQ DX 1822Z'' =
   Relay_spot \<lparr>spotter = ''K1ABC'', spotted = ''DL1XYZ'', frequency = PStr ''14074'', message = ''FT8 CQ DX'',
     when = ''2025-11-12T18:22:30.123456Z'', source = ''cq'', band = ''20m''\<rparr> \<and>
   re_search TELNET_RE (strip ''DX de K1ABC: 14074.0 DL1XYZ FT8 CQ DX 1822Z'') =
     Some [(''time'', ''1822Z''), (''rest'', ''FT8 CQ DX''), (''spotted'', ''DL1XYZ''),
           (''freq'', ''14074.0''), (''spotter'', ''K1ABC'')] \<and>
   py_float_str ''14074.0'' = Inr (Finite 14074) \<and>
   py_str_int \<lfloor>14074 :: real\<rfloor> = ''14074'' \<and>
   lower ''FT8 CQ DX'' = ''ft8 '' @ ''cq'' @ '' dx'' \<and>
   lower ''FT8 CQ DX'' = lower ''ft8 Cq dx'' \<and>
   detect_source_from_message ''FT8 CQ DX'' = detect_source_from_message ''ft8 Cq dx''"
proof -
  have p: "parse_line \<lparr>year = 2025, month = 11, day = 12, hour = 18, minute = 30, second = 30, microsecond = 123456\<rparr>
    ''DX de K1ABC: 14074.0 DL1XYZ FT8 CQ DX 1822Z'' =
   Relay_spot \<lparr>spotter = ''K1ABC'', spotted = ''DL1XYZ'', frequency = PStr ''14074'', message = ''FT8 CQ DX'',
     when = ''2025-11-12T18:22:30.123456Z'', source = ''cq'', band = ''20m''\<rparr>"
    using relay_line_parsing by (rule conjunct1)
  have rest: "re_search TELNET_RE (strip ''DX de K1ABC: 14074.0 DL1XYZ FT8 CQ DX 1822Z'') =
     Some [(''time'', ''1822Z''), (''rest'', ''FT8 CQ DX''), (''spotted'', ''DL1XYZ''),
           (''freq'', ''14074.0''), (''spotter'', ''K1ABC'')] \<and>
   py_float_str ''14074.0'' = Inr (Finite 14074) \<and>
   py_str_int \<lfloor>14074 :: real\<rfloor> = ''14074'' \<and>
   lower ''FT8 CQ DX'' = ''ft8 '' @ ''cq'' @ '' dx'' \<and>
   lower ''FT8 CQ DX'' = lower ''ft8 Cq dx'' \<and>
   detect_source_from_message ''FT8 CQ DX'' = detect_source_from_message ''ft8 Cq dx''"
    by (simp add: spot_defs re_defs datetime_defs literal_defs)
  from p rest show ?thesis by (rule conjI)
qed

text \<open>
  C7: parsing the bulk-listing line
  \<open>14074.0 DL1XYZ 11-Nov-2025 1822Z via W1AW CQ DX <K1ABC>\<close> gives spotter K1ABC, spotted
  DL1XYZ, the message "CQ DX via W1AW" and source "cluster". For every line that yields a
  bulk-listing spot, the source is "cluster", spotter and spotted are the groups of the
  pattern, and the message is the stripped message group, followed by " via " and the
  relay token when the line has one.
\<close>

theorem bulk_line_parsing:
  "parse_line \<lparr>year = 2025, month = 11, day = 12, hour = 18, minute = 30, second = 30, microsecond = 123456\<rparr>
    ''14074.0 DL1XYZ 11-Nov-2025 1822Z via W1AW CQ DX <K1ABC>'' =
   Bulk_spot \<lparr>spotter = ''K1ABC'', spotted = ''DL1XYZ'', frequency = PInt 14074, message = ''CQ DX via W1AW'',
     when = ''2025-11-11T18:22:30.123Z'', source = ''cluster'', band = ''20m''\<rparr> \<and>
   (\<forall>now line sp. parse_line now line = Bulk_spot sp \<longrightarrow>
      source sp = ''cluster'' \<and>
      (\<exists>g. re_match SHDX_RE (strip line) = Some g \<and>
         spotter sp = group_str g ''spotter'' \<and> spotted sp = group_str g ''spotted'' \<and>
         (group g ''via'' = None \<longrightarrow> message sp = strip (group_str g ''message'')) \<and>
         (\<forall>via. group g ''via'' = Some via \<and> via \<noteq> [] \<longrightarrow>
            message sp = strip (group_str g ''message'') @ '' via '' @ via)))"
proof (intro conjI allI impI)
  show "parse_line \<lparr>year = 2025, month = 11, day = 12, hour = 18, minute = 30, second = 30, microsecond = 123456\<rparr>
    ''14074.0 DL1XYZ 11-Nov-2025 1822Z via W1AW CQ DX <K1ABC>'' =
   Bulk_spot \<lparr>spotter = ''K1ABC'', spotted = ''DL1XYZ'', frequency = PInt 14074, message = ''CQ DX via W1AW'',
     when = ''2025-11-11T18:22:30.123Z'', source = ''cluster'', band = ''20m''\<rparr>"
    by (simp add: spot_defs re_defs datetime_defs literal_defs)
next
  fix now line sp
  assume a: "parse_line now line = Bulk_spot sp"
  from parse_line_bulk [OF a] obtain g where
    g: "re_match SHDX_RE (strip line) = Some g" and b: "bulk_spot now g = Inr sp" by blast
  show "source sp = ''cluster''" by (rule bulk_spot_fields(1) [OF b])
  show "\<exists>g. re_match SHDX_RE (strip line) = Some g \<and>
         spotter sp = group_str g ''spotter'' \<and> spotted sp = group_str g ''spotted'' \<and>
         (group g ''via'' = None \<longrightarrow> message sp = strip (group_str g ''message'')) \<and>
         (\<forall>via. group g ''via'' = Some via \<and> via \<noteq> [] \<longrightarrow>
            message sp = strip (group_str g ''message'') @ '' via '' @ via)"
  proof (intro exI conjI impI allI)
    show "re_match SHDX_RE (strip line) = Some g" by (rule g)
    show "spotter sp = group_str g ''spotter''" by (rule bulk_spot_fields(2) [OF b])
    show "spotted sp = group_str g ''spotted''" by (rule bulk_spot_fields(3) [OF b])
    show "message sp = strip (group_str g ''message'')" if "group g ''via'' = None"
      using that by (rule bulk_spot_fields(4) [OF b])
    show "message sp = strip (group_str g ''message'') @ '' via '' @ via"
      if "group g ''via'' = Some via \<and> via \<noteq> []" for via
      using that bulk_spot_fields(5) [OF b, of via] by simp
  qed
qed

text \<open>
  The statement of C7 on the line of the claim, with its relay token, and on the same line
  without one.
\<close>

theorem bulk_line_parsing_witness:
  "parse_line \<lparr>year = 2025, month = 11, day = 12, hour = 18, minute = 30, second = 30, microsecond = 123456\<rparr>
    ''14074.0 DL1XYZ 11-Nov-2025 1822Z via W1AW CQ DX <K1ABC>'' =
   Bulk_spot \<lparr>spotter = ''K1ABC'', spotted = ''DL1XYZ'', frequency = PInt 14074, message = ''CQ DX via W1AW'',
     when = ''2025-11-11T18:22:30.123Z'', source = ''cluster'', band = ''20m''\<rparr> \<and>
   re_match SHDX_RE (strip ''14074.0 DL1XYZ 11-Nov-2025 1822Z via W1AW CQ DX <K1ABC>'') =
     Some [(''spotter'', ''K1ABC''), (''message'', ''CQ DX''), (''via'', ''W1AW''), (''time'', ''1822Z''),
           (''date'', ''11-Nov-2025''), (''spotted'', ''DL1XYZ''), (''freq'', ''14074.0'')] \<and>
   ''W1AW'' \<noteq> [] \<and>
   ''CQ DX via W1AW'' = strip ''CQ DX'' @ '' via '' @ ''W1AW'' \<and>
   parse_line \<lparr>year = 2025, month = 11, day = 12, hour = 18, minute = 30, second = 30, microsecond = 123456\<rparr>
    ''14074.0 DL1XYZ 11-Nov-2025 1822Z CQ DX <K1ABC>'' =
   Bulk_spot \<lparr>spotter = ''K1ABC'', spotted = ''DL1XYZ'', frequency = PInt 14074, message = ''CQ DX'',
     when = ''2025-11-11T18:22:30.123Z'', source = ''cluster'', band = ''20m''\<rparr>"
proof -
  have p: "parse_line \<lparr>year = 2025, month = 11, day = 12, hour = 18, minute = 30, second = 30, microsecond = 123456\<rparr>
    ''14074.0 DL1XYZ 11-Nov-2025 1822Z via W1AW CQ DX <K1ABC>'' =
   Bulk_spot \<lparr>spotter = ''K1ABC'', spotted = ''DL1XYZ'', frequency = PInt 14074, message = ''CQ DX via W1AW'',
     when = ''2025-11-11T18:22:30.123Z'', source = ''cluster'', band = ''20m''\<rparr>"
    using bulk_line_parsing by (rule conjunct1)
  have rest: "re_match SHDX_RE (strip ''14074.0 DL1XYZ 11-Nov-2025 1822Z via W1AW CQ DX <K1ABC>'') =
     Some [(''spotter'', ''K1ABC''), (''message'', ''CQ DX''), (''via'', ''W1AW''), (''time'', ''1822Z''),
           (''date'', ''11-Nov-2025''), (''spotted'', ''DL1XYZ''), (''freq'', ''14074.0'')] \<and>
   ''W1AW'' \<noteq> [] \<and>
   ''CQ DX via W1AW'' = strip ''CQ DX'' @ '' via '' @ ''W1AW'' \<and>
   parse_line \<lparr>year = 2025, month = 11, day = 12, hour = 18, minute = 30, second = 30, microsecond = 123456\<rparr>
    ''14074.0 DL1XYZ 11-Nov-2025 1822Z CQ DX <K1ABC>'' =
   Bulk_spot \<lparr>spotter = ''K1ABC'', spotted = ''DL1XYZ'', frequency = PInt 14074, message = ''CQ DX'',
     when = ''2025-11-11T18:22:30.123Z'', source = ''cluster'', band = ''20m''\<rparr>"
    by (simp add: spot_defs re_defs datetime_defs literal_defs)
  from p rest show ?thesis by (rule conjI)
qed

section \<open>Serving layer: properties\<close>

lemmas serving_defs = api_spot_def api_spots_when_def api_spots_band_def fromisoformat_def
  iso_shape_def iso_fraction_def fraction_digits_def

lemma api_spot_loop_no_string:
  assumes "\<forall>s \<in> set cache. frequency s \<noteq> PStr q"
  shows "api_spot_loop q cache acc = Inr acc"
  using assms by (induction cache arbitrary: acc) simp_all

lemma api_spot_int_frequencies:
  assumes "\<forall>s \<in> set cache. \<exists>n. frequency s = PInt n"
  shows "api_spot qrg_khz cache = Inr None"
proof -
  have "\<forall>s \<in> set cache. frequency s \<noteq> PStr (py_str_int (int qrg_khz))"
    using assms by auto
  then show ?thesis by (simp add: api_spot_def api_spot_loop_no_string)
qed

text \<open>
  C2: the claim holds for records of the relay grammar only. A record of the bulk-listing
  grammar carries its frequency as an int, which never equals the string that \<open>api_spot\<close>
  compares with. Read at 18:30:30.123456 on 12 November 2025, the bulk-listing line
  \<open>14074.0 DL1XYZ 12-Nov-2025 1825Z CQ DX <K1ABC>\<close> gives a record that a query for 14074
  does not return, and a cache holding the relay record of 18:22 and this fresher bulk
  record answers with the relay record.
\<close>

theorem api_spot_misses_bulk_records:
  "parse_line \<lparr>year = 2025, month = 11, day = 12, hour = 18, minute = 30, second = 30, microsecond = 123456\<rparr>
      ''14074.0 DL1XYZ 12-Nov-2025 1825Z CQ DX <K1ABC>'' =
     Bulk_spot \<lparr>spotter = ''K1ABC'', spotted = ''DL1XYZ'', frequency = PInt 14074, message = ''CQ DX'',
       when = ''2025-11-12T18:25:30.123Z'', source = ''cluster'', band = ''20m''\<rparr> \<and>
   api_spot 14074
     [\<lparr>spotter = ''K1ABC'', spotted = ''DL1XYZ'', frequency = PInt 14074, message = ''CQ DX'',
       when = ''2025-11-12T18:25:30.123Z'', source = ''cluster'', band = ''20m''\<rparr>] = Inr None \<and>
   api_spot 14074
     [\<lparr>spotter = ''K1ABC'', spotted = ''DL1XYZ'', frequency = PStr ''14074'', message = ''FT8 CQ DX'',
       when = ''2025-11-12T18:22:30.123456Z'', source = ''cq'', band = ''20m''\<rparr>,
      \<lparr>spotter = ''K1ABC'', spotted = ''DL1XYZ'', frequency = PInt 14074, message = ''CQ DX'',
       when = ''2025-11-12T18:25:30.123Z'', source = ''cluster'', band = ''20m''\<rparr>] =
     Inr (Some \<lparr>spotter = ''K1ABC'', spotted = ''DL1XYZ'', frequency = PStr ''14074'', message = ''FT8 CQ DX'',
       when = ''2025-11-12T18:22:30.123456Z'', source = ''cq'', band = ''20m''\<rparr>) \<and>
   api_spot 14074
     [\<lparr>spotter = ''K1ABC'', spotted = ''DL1XYZ'', frequency = PStr ''14074'', message = ''FT8 CQ DX'',
       when = ''2025-11-12T18:22:30.123456Z'', source = ''cq'', band = ''20m''\<rparr>,
      \<lparr>spotter = ''W1AW'', spotted = ''DL1XYZ'', frequency = PStr ''14074'', message = ''CQ'',
       when = ''2025-11-12T18:25:30.500000Z'', source = ''cq'', band = ''20m''\<rparr>] =
     Inr (Some \<lparr>spotter = ''W1AW'', spotted = ''DL1XYZ'', frequency = PStr ''14074'', message = ''CQ'',
       when = ''2025-11-12T18:25:30.500000Z'', source = ''cq'', band = ''20m''\<rparr>)"
  by (simp add: serving_defs spot_defs re_defs datetime_defs literal_defs)

text \<open>
  C10: a record of the relay grammar carries the timestamp as \<open>isoformat()\<close> writes it:
  six fraction digits, or none when the microsecond of the clock is 0. Only the
  bulk-listing grammar, and the listing \<open>api_spots\<close> when it renders a record again, write
  three. Read at 18:30:30.123456 on 12 November 2025, the relay line of C6 is stored with
  the timestamp \<open>2025-11-12T18:22:30.123456Z\<close>, and \<open>api_spot\<close> and \<open>api_spots_band\<close>
  return it so.
\<close>

theorem relay_when_keeps_microseconds:
  "parse_line \<lparr>year = 2025, month = 11, day = 12, hour = 18, minute = 30, second = 30, microsecond = 123456\<rparr>
      ''DX de K1ABC: 14074.0 DL1XYZ FT8 CQ DX 1822Z'' =
     Relay_spot \<lparr>spotter = ''K1ABC'', spotted = ''DL1XYZ'', frequency = PStr ''14074'', message = ''FT8 CQ DX'',
       when = ''2025-11-12T18:22:30.123456Z'', source = ''cq'', band = ''20m''\<rparr> \<and>
   fraction_digits ''2025-11-12T18:22:30.123456Z'' = 6 \<and>
   parse_line \<lparr>year = 2025, month = 11, day = 12, hour = 18, minute = 30, second = 30, microsecond = 0\<rparr>
      ''DX de K1ABC: 14074.0 DL1XYZ FT8 CQ DX 1822Z'' =
     Relay_spot \<lparr>spotter = ''K1ABC'', spotted = ''DL1XYZ'', frequency = PStr ''14074'', message = ''FT8 CQ DX'',
       when = ''2025-11-12T18:22:30Z'', source = ''cq'', band = ''20m''\<rparr> \<and>
   fraction_digits ''2025-11-12T18:22:30Z'' = 0 \<and>
   parse_line \<lparr>year = 2025, month = 11, day = 12, hour = 18, minute = 30, second = 30, microsecond = 123456\<rparr>
      ''14074.0 DL1XYZ 11-Nov-2025 1822Z via W1AW CQ DX <K1ABC>'' =
     Bulk_spot \<lparr>spotter = ''K1ABC'', spotted = ''DL1XYZ'', frequency = PInt 14074, message = ''CQ DX via W1AW'',
       when = ''2025-11-11T18:22:30.123Z'', source = ''cluster'', band = ''20m''\<rparr> \<and>
   fraction_digits ''2025-11-11T18:22:30.123Z'' = 3 \<and>
   api_spots_when \<lparr>spotter = ''K1ABC'', spotted = ''DL1XYZ'', frequency = PStr ''14074'', message = ''FT8 CQ DX'',
       when = ''2025-11-12T18:22:30.123456Z'', source = ''cq'', band = ''20m''\<rparr> = ''2025-11-12T18:22:30.123Z'' \<and>
   api_spot 14074
     [\<lparr>spotter = ''K1ABC'', spotted = ''DL1XYZ'', frequency = PStr ''14074'', message = ''FT8 CQ DX'',
       when = ''2025-11-12T18:22:30.123456Z'', source = ''cq'', band = ''20m''\<rparr>] =
     Inr (Some \<lparr>spotter = ''K1ABC'', spotted = ''DL1XYZ'', frequency = PStr ''14074'', message = ''FT8 CQ DX'',
       when = ''2025-11-12T18:22:30.123456Z'', source = ''cq'', band = ''20m''\<rparr>) \<and>
   api_spots_band ''20m''
     [\<lparr>spotter = ''K1ABC'', spotted = ''DL1XYZ'', frequency = PStr ''14074'', message = ''FT8 CQ DX'',
       when = ''2025-11-12T18:22:30.123456Z'', source = ''cq'', band = ''20m''\<rparr>] =
     [\<lparr>spotter = ''K1ABC'', spotted = ''DL1XYZ'', frequency = PStr ''14074'', message = ''FT8 CQ DX'',
       when = ''2025-11-12T18:22:30.123456Z'', source = ''cq'', band = ''20m''\<rparr>]"
  by (simp add: serving_defs spot_defs re_defs datetime_defs literal_defs)

end
